theory Spec2Isabelle
  imports Main "HOL-Library.Word"
begin

section \<open>JavaScript strings\<close>

text \<open>
  A JavaScript string is a sequence of 16-bit code units.  ASCII literals of the source are
  written with \<open>js\<close>; the bullet of the panel's formatter is the code unit U+2022.
\<close>

type_synonym unit16 = "16 word"
type_synonym jsstring = "unit16 list"

definition js :: "string \<Rightarrow> jsstring" where
  "js s = map (\<lambda>c. word_of_nat (of_char c)) s"

definition NL :: unit16 where
  "NL = 0x0A"

definition BULLET :: unit16 where
  "BULLET = 0x2022"

text \<open>The LineTerminator and WhiteSpace productions of ECMAScript.\<close>

definition is_line_terminator :: "unit16 \<Rightarrow> bool" where
  "is_line_terminator c = (c = 0x0A \<or> c = 0x0D \<or> c = 0x2028 \<or> c = 0x2029)"

definition is_white_space :: "unit16 \<Rightarrow> bool" where
  "is_white_space c =
     (c = 0x09 \<or> c = 0x0B \<or> c = 0x0C \<or> c = 0x20 \<or> c = 0xA0 \<or> c = 0x1680 \<or>
      (0x2000 \<le> c \<and> c \<le> 0x200A) \<or> c = 0x202F \<or> c = 0x205F \<or> c = 0x3000 \<or> c = 0xFEFF)"

definition is_space :: "unit16 \<Rightarrow> bool" where
  "is_space c = (is_white_space c \<or> is_line_terminator c)"

text \<open>\<open>String.prototype.trim\<close>: white space and line terminators go from both ends.\<close>

definition trim :: "jsstring \<Rightarrow> jsstring" where
  "trim s = rev (dropWhile is_space (rev (dropWhile is_space s)))"

text \<open>\<open>String.prototype.includes\<close>.\<close>

fun is_prefix :: "jsstring \<Rightarrow> jsstring \<Rightarrow> bool" where
  "is_prefix [] s = True"
| "is_prefix (p # ps) [] = False"
| "is_prefix (p # ps) (c # cs) = (p = c \<and> is_prefix ps cs)"

fun str_includes :: "jsstring \<Rightarrow> jsstring \<Rightarrow> bool" where
  "str_includes [] needle = (needle = [])"
| "str_includes (c # cs) needle = (is_prefix needle (c # cs) \<or> str_includes cs needle)"


section \<open>Regular expressions\<close>

text \<open>
  The regular expressions of the source use literals, character classes, a quantifier on a
  single class (greedy \<open>*\<close> and \<open>+\<close>, lazy \<open>*?\<close>), capture groups that are not nested in a
  quantifier, and the assertions \<open>^\<close> and \<open>$\<close>.  A pattern is the list of its atoms; the
  matcher is the backtracking matcher of ECMAScript: a greedy quantifier first takes one
  more unit and falls back to the rest of the pattern, a lazy one first tries the rest.
\<close>

datatype cclass =
    Lit unit16            \<comment> \<open>a literal or escaped character\<close>
  | NoneOf "unit16 list"  \<comment> \<open>\<open>[^...]\<close>\<close>
  | Dot                   \<comment> \<open>\<open>.\<close>: anything but a line terminator\<close>
  | Space                 \<comment> \<open>\<open>\s\<close>\<close>
  | AnyUnit               \<comment> \<open>\<open>[\s\S]\<close>\<close>

datatype atom =
    One cclass
  | Star cclass
  | Plus cclass
  | LazyStar cclass
  | Open nat      \<comment> \<open>\<open>(\<close> of the group with this number\<close>
  | Close nat     \<comment> \<open>\<open>)\<close> of the group with this number\<close>
  | Bol           \<comment> \<open>\<open>^\<close>\<close>
  | Eol           \<comment> \<open>\<open>$\<close>\<close>

record regex =
  atoms :: "atom list"
  multiline :: bool

fun cc_match :: "cclass \<Rightarrow> unit16 \<Rightarrow> bool" where
  "cc_match (Lit a) c = (c = a)"
| "cc_match (NoneOf xs) c = (c \<notin> set xs)"
| "cc_match Dot c = (\<not> is_line_terminator c)"
| "cc_match Space c = is_space c"
| "cc_match AnyUnit c = True"

definition lits :: "string \<Rightarrow> atom list" where
  "lits s = map (\<lambda>c. One (Lit c)) (js s)"

text \<open>
  The state of one match attempt: the unit before the current position (none at the start
  of the input), the units matched so far in reverse, the start offsets of the groups still
  open and the text of the groups already closed.
\<close>

type_synonym captures = "(nat \<times> jsstring) list"

fun close_group :: "nat \<Rightarrow> jsstring \<Rightarrow> (nat \<times> nat) list \<Rightarrow> captures \<Rightarrow> captures" where
  "close_group n acc opens caps =
     (case map_of opens n of
        None \<Rightarrow> caps
      | Some start \<Rightarrow> (n, rev (take (length acc - start) acc)) # caps)"

fun match_atoms ::
  "bool \<Rightarrow> atom list \<Rightarrow> unit16 option \<Rightarrow> jsstring \<Rightarrow> (nat \<times> nat) list \<Rightarrow> captures \<Rightarrow> jsstring
     \<Rightarrow> (jsstring \<times> captures) option" where
  "match_atoms ml [] prev acc opens caps rest = Some (rev acc, caps)"
| "match_atoms ml (One cc # as) prev acc opens caps [] = None"
| "match_atoms ml (One cc # as) prev acc opens caps (c # cs) =
     (if cc_match cc c then match_atoms ml as (Some c) (c # acc) opens caps cs else None)"
| "match_atoms ml (Plus cc # as) prev acc opens caps [] = None"
| "match_atoms ml (Plus cc # as) prev acc opens caps (c # cs) =
     (if cc_match cc c then match_atoms ml (Star cc # as) (Some c) (c # acc) opens caps cs
      else None)"
| "match_atoms ml (Star cc # as) prev acc opens caps [] =
     match_atoms ml as prev acc opens caps []"
| "match_atoms ml (Star cc # as) prev acc opens caps (c # cs) =
     (if cc_match cc c
      then (case match_atoms ml (Star cc # as) (Some c) (c # acc) opens caps cs of
              Some r \<Rightarrow> Some r
            | None \<Rightarrow> match_atoms ml as prev acc opens caps (c # cs))
      else match_atoms ml as prev acc opens caps (c # cs))"
| "match_atoms ml (LazyStar cc # as) prev acc opens caps [] =
     match_atoms ml as prev acc opens caps []"
| "match_atoms ml (LazyStar cc # as) prev acc opens caps (c # cs) =
     (case match_atoms ml as prev acc opens caps (c # cs) of
        Some r \<Rightarrow> Some r
      | None \<Rightarrow>
          (if cc_match cc c
           then match_atoms ml (LazyStar cc # as) (Some c) (c # acc) opens caps cs
           else None))"
| "match_atoms ml (Open n # as) prev acc opens caps rest =
     match_atoms ml as prev acc ((n, length acc) # opens) caps rest"
| "match_atoms ml (Close n # as) prev acc opens caps rest =
     match_atoms ml as prev acc opens (close_group n acc opens caps) rest"
| "match_atoms ml (Bol # as) prev acc opens caps rest =
     (if (case prev of None \<Rightarrow> True | Some p \<Rightarrow> ml \<and> is_line_terminator p)
      then match_atoms ml as prev acc opens caps rest else None)"
| "match_atoms ml (Eol # as) prev acc opens caps rest =
     (if (case rest of [] \<Rightarrow> True | c # cs \<Rightarrow> ml \<and> is_line_terminator c)
      then match_atoms ml as prev acc opens caps rest else None)"

definition match_at :: "regex \<Rightarrow> unit16 option \<Rightarrow> jsstring \<Rightarrow> (jsstring \<times> captures) option" where
  "match_at r prev rest = match_atoms (multiline r) (atoms r) prev [] [] [] rest"

text \<open>
  \<open>RegExp.prototype.exec\<close> of a regular expression without the global flag, as
  \<open>String.prototype.match\<close> calls it: the first position from the left at which the
  pattern matches, with the groups of that match.
\<close>

fun exec_from :: "regex \<Rightarrow> unit16 option \<Rightarrow> jsstring \<Rightarrow> (jsstring \<times> captures) option" where
  "exec_from r prev [] = match_at r prev []"
| "exec_from r prev (c # cs) =
     (case match_at r prev (c # cs) of
        Some m \<Rightarrow> Some m
      | None \<Rightarrow> exec_from r (Some c) cs)"

definition match_js :: "jsstring \<Rightarrow> regex \<Rightarrow> (jsstring \<times> captures) option" where
  "match_js s r = exec_from r None s"

text \<open>
  \<open>match[n]\<close>: the text of group \<open>n\<close>, or \<open>undefined\<close> (\<open>None\<close>) when the group took no part
  in the match.  In a replacement, a group that took no part stands for the empty string.
\<close>

definition capture :: "captures \<Rightarrow> nat \<Rightarrow> jsstring option" where
  "capture caps n = map_of caps n"

definition group :: "captures \<Rightarrow> nat \<Rightarrow> jsstring" where
  "group caps n = (case capture caps n of None \<Rightarrow> [] | Some t \<Rightarrow> t)"

text \<open>
  The replacement template of \<open>String.prototype.replace\<close>: \<open>$$\<close> is a dollar sign, \<open>$&\<close>
  the matched text, \<open>$n\<close> with a digit from 1 to 9 the group of that number when the
  pattern has one, and any other unit stands for itself.  (The templates of the source hold
  a dollar sign only in \<open>$1\<close>.)
\<close>

definition digit_val :: "unit16 \<Rightarrow> nat" where
  "digit_val d = unat d - 48"

definition is_digit :: "unit16 \<Rightarrow> bool" where
  "is_digit d = (0x30 \<le> d \<and> d \<le> 0x39)"

fun count_groups :: "atom list \<Rightarrow> nat" where
  "count_groups [] = 0"
| "count_groups (Open n # as) = Suc (count_groups as)"
| "count_groups (a # as) = count_groups as"

fun expand :: "nat \<Rightarrow> jsstring \<Rightarrow> captures \<Rightarrow> jsstring \<Rightarrow> jsstring" where
  "expand m matched caps [] = []"
| "expand m matched caps [c] = [c]"
| "expand m matched caps (c # d # t) =
     (if c = 0x24 \<and> d = 0x24 then 0x24 # expand m matched caps t
      else if c = 0x24 \<and> d = 0x26 then matched @ expand m matched caps t
      else if c = 0x24 \<and> is_digit d \<and> 1 \<le> digit_val d \<and> digit_val d \<le> m
        then group caps (digit_val d) @ expand m matched caps t
      else c # expand m matched caps (d # t))"

text \<open>
  \<open>String.prototype.replace\<close> with a global regular expression: the matches are found
  from left to right, each search starting where the previous match ended (one unit
  further after an empty match); the text between the matches is kept.  \<open>skip\<close> counts the
  units of the current match still to be passed over.
\<close>

fun replace_from :: "regex \<Rightarrow> jsstring \<Rightarrow> unit16 option \<Rightarrow> nat \<Rightarrow> jsstring \<Rightarrow> jsstring" where
  "replace_from r tmpl prev (Suc k) [] = []"
| "replace_from r tmpl prev (Suc k) (c # cs) = replace_from r tmpl (Some c) k cs"
| "replace_from r tmpl prev 0 [] =
     (case match_at r prev [] of
        None \<Rightarrow> []
      | Some (m, caps) \<Rightarrow> expand (count_groups (atoms r)) m caps tmpl)"
| "replace_from r tmpl prev 0 (c # cs) =
     (case match_at r prev (c # cs) of
        None \<Rightarrow> c # replace_from r tmpl (Some c) 0 cs
      | Some (m, caps) \<Rightarrow>
          expand (count_groups (atoms r)) m caps tmpl @
            (if m = [] then c # replace_from r tmpl (Some c) 0 cs
             else replace_from r tmpl (Some c) (length m - 1) cs))"

definition replace_all :: "jsstring \<Rightarrow> regex \<Rightarrow> jsstring \<Rightarrow> jsstring" where
  "replace_all s r tmpl = replace_from r tmpl None 0 s"


section \<open>The diagnostic panel's formatter (text-output-panel.tsx)\<close>

text \<open>\<open>/\*\*([^*]+):\*\*/g\<close>\<close>

definition header_re :: regex where
  "header_re = \<lparr>atoms = lits ''**'' @ [Open 1, Plus (NoneOf (js ''*'')), Close 1] @ lits '':**'',
                multiline = False\<rparr>"

definition header_tmpl :: jsstring where
  \<open>header_tmpl = js ''<h3 class="text-lg font-bold text-blue-600 dark:text-blue-400 mt-6 mb-3 border-b border-blue-200 dark:border-blue-800 pb-2">$1</h3>''\<close>

text \<open>\<open>/\*\*Category:\*\*\s*([^\n]+)/g\<close>\<close>

definition category_re :: regex where
  "category_re = \<lparr>atoms = lits ''**Category:**'' @ [Star Space, Open 1, Plus (NoneOf [NL]), Close 1],
                  multiline = False\<rparr>"

definition category_tmpl :: jsstring where
  \<open>category_tmpl = js ''<div class="bg-blue-50 dark:bg-blue-900/20 p-3 rounded-lg mb-4"><strong class="text-blue-700 dark:text-blue-300">Category:</strong> <span class="text-gray-800 dark:text-gray-200">$1</span></div>''\<close>

text \<open>\<open>/^\<bullet> (.+)$/gm\<close>, the first character being U+2022.\<close>

definition bullet_re :: regex where
  "bullet_re = \<lparr>atoms = [Bol, One (Lit BULLET)] @ lits '' '' @ [Open 1, Plus Dot, Close 1, Eol],
                multiline = True\<rparr>"

definition bullet_tmpl :: jsstring where
  \<open>bullet_tmpl =
     js ''<div class="flex items-start mb-3 p-2 hover:bg-gray-50 dark:hover:bg-gray-800/50 rounded"><span class="text-blue-500 mr-3 mt-1 text-lg">''
     @ [BULLET] @
     js ''</span><span class="text-gray-800 dark:text-gray-200 leading-relaxed">$1</span></div>''\<close>

text \<open>\<open>/\n\n/g\<close> and \<open>/\n/g\<close>\<close>

definition para_re :: regex where
  "para_re = \<lparr>atoms = [One (Lit NL), One (Lit NL)], multiline = False\<rparr>"

definition para_tmpl :: jsstring where
  \<open>para_tmpl = js ''<div class="my-4"></div>''\<close>

definition br_re :: regex where
  "br_re = \<lparr>atoms = [One (Lit NL)], multiline = False\<rparr>"

definition br_tmpl :: jsstring where
  "br_tmpl = js ''<br>''"

definition formatMainContent :: "jsstring \<Rightarrow> jsstring" where
  "formatMainContent content =
     replace_all
       (replace_all
          (replace_all
             (replace_all
                (replace_all content header_re header_tmpl)
                category_re category_tmpl)
             bullet_re bullet_tmpl)
          para_re para_tmpl)
       br_re br_tmpl"


section \<open>JSON values\<close>

text \<open>
  The Number values \<open>JSON.parse\<close> produces: a finite double, written \<open>m * 2^e\<close> with \<open>m\<close>
  odd (zero is \<open>Finite 0 0\<close>; the sign of zero is not observed by the program), or an
  infinity, which is what a literal beyond the range of the doubles gives.
\<close>

datatype jsnumber =
    Finite int int
  | Infinite bool   \<comment> \<open>\<open>True\<close> for the negative one\<close>

text \<open>
  The values \<open>JSON.parse\<close> produces.  An object is the list of its own properties in the
  order JavaScript enumerates them: array indices in ascending order, then the other keys
  in the order of their creation.
\<close>

datatype json =
    JNull
  | JBool bool
  | JNum jsnumber
  | JStr jsstring
  | JArr "json list"
  | JObj "(jsstring \<times> json) list"

datatype js_error =
    SyntaxError
  | TypeError
  | Error jsstring

subsection \<open>Rounding a decimal to a double\<close>

text \<open>The number of binary and of decimal digits of a positive integer.\<close>

function bit_length :: "int \<Rightarrow> int" where
  "bit_length n = (if n \<le> 0 then 0 else 1 + bit_length (n div 2))"
  by pat_completeness auto
termination
  by (relation "measure nat") auto

function dec_length :: "int \<Rightarrow> int" where
  "dec_length n = (if n < 10 then 1 else 1 + dec_length (n div 10))"
  by pat_completeness auto
termination
  by (relation "measure nat") auto

text \<open>
  For positive \<open>N\<close> and \<open>D\<close>: the integer \<open>b\<close> with \<open>2^b \<le> N / D < 2^(b + 1)\<close>, the same
  for powers of ten, and \<open>N / D\<close> rounded to the nearest integer, a tie to the even one.
\<close>

definition floor_log2 :: "int \<Rightarrow> int \<Rightarrow> int" where
  "floor_log2 N D =
     (let b = bit_length N - bit_length D
      in if D * 2 ^ nat b \<le> N * 2 ^ nat (- b) then b else b - 1)"

definition floor_log10 :: "int \<Rightarrow> int \<Rightarrow> int" where
  "floor_log10 N D =
     (let b = dec_length N - dec_length D
      in if D * 10 ^ nat b \<le> N * 10 ^ nat (- b) then b else b - 1)"

definition round_half_even :: "int \<Rightarrow> int \<Rightarrow> int" where
  "round_half_even N D =
     (let q = N div D; r = N mod D
      in if 2 * r < D then q
         else if D < 2 * r then q + 1
         else if even q then q
         else q + 1)"

function odd_form :: "int \<Rightarrow> int \<Rightarrow> jsnumber" where
  "odd_form M E =
     (if M = 0 then Finite 0 0
      else if even M then odd_form (M div 2) (E + 1)
      else Finite M E)"
  by pat_completeness auto
termination
  by (relation "measure (\<lambda>(M, E). nat \<bar>M\<bar>)") auto

text \<open>
  The Number value of the decimal \<open>m * 10^e\<close>: the nearest double, a tie to the one with the
  even significand.  The significand \<open>M\<close> has 53 bits at the exponent \<open>E\<close>, which is not
  below \<open>-1074\<close>, the exponent of the subnormal doubles; the largest finite double is
  \<open>(2^53 - 1) * 2^971\<close>.
\<close>

definition round_to_double :: "int \<Rightarrow> int \<Rightarrow> jsnumber" where
  "round_to_double m e =
     (if m = 0 then Finite 0 0
      else
        (let N = \<bar>m\<bar> * 10 ^ nat e;
             D = 10 ^ nat (- e);
             E = max (floor_log2 N D - 52) (- 1074);
             M = round_half_even (N * 2 ^ nat (- E)) (D * 2 ^ nat E)
         in if 972 \<le> E \<or> (E = 971 \<and> M = 2 ^ 53) then Infinite (m < 0)
            else odd_form (sgn m * M) E))"

text \<open>\<open>ToBoolean\<close>, and the same for the result of a property read (\<open>None\<close> is \<open>undefined\<close>).\<close>

fun truthy :: "json \<Rightarrow> bool" where
  "truthy JNull = False"
| "truthy (JBool b) = b"
| "truthy (JNum (Finite m e)) = (m \<noteq> 0)"
| "truthy (JNum (Infinite neg)) = True"
| "truthy (JStr s) = (s \<noteq> [])"
| "truthy (JArr xs) = True"
| "truthy (JObj ps) = True"

fun truthy_opt :: "json option \<Rightarrow> bool" where
  "truthy_opt None = False"
| "truthy_opt (Some v) = truthy v"

text \<open>\<open>typeof x === 'string'\<close> and \<open>Array.isArray(x)\<close> on the result of a property read.\<close>

fun is_string :: "json option \<Rightarrow> bool" where
  "is_string (Some (JStr s)) = True"
| "is_string v = False"

fun isArray :: "json option \<Rightarrow> bool" where
  "isArray (Some (JArr xs)) = True"
| "isArray v = False"

text \<open>
  Reading a property \<open>v.k\<close>.  On \<open>null\<close> it throws a TypeError; on an object it is the own
  property of that name, or \<open>undefined\<close>; on a boolean, a number, a string or an array it
  is \<open>undefined\<close> for every name that their prototypes do not define, which holds for all
  names the program reads (\<open>voice_output\<close>, \<open>diagnostic_report\<close>, \<open>text_output\<close>,
  \<open>content\<close>, \<open>web_sources\<close>, \<open>youtube_videos\<close>, \<open>data\<close>).
\<close>

fun get_prop :: "json \<Rightarrow> jsstring \<Rightarrow> js_error + json option" where
  "get_prop JNull k = Inl TypeError"
| "get_prop (JObj ps) k = Inr (map_of ps k)"
| "get_prop v k = Inr None"


section \<open>JSON.parse\<close>

subsection \<open>Tokens\<close>

datatype token =
    TLBrace | TRBrace | TLBrack | TRBrack | TColon | TComma
  | TScalar json   \<comment> \<open>a string, a number, \<open>true\<close>, \<open>false\<close> or \<open>null\<close>\<close>

definition is_json_ws :: "unit16 \<Rightarrow> bool" where
  "is_json_ws c = (c = 0x20 \<or> c = 0x09 \<or> c = 0x0A \<or> c = 0x0D)"

definition hex_val :: "unit16 \<Rightarrow> nat option" where
  "hex_val c =
     (if 0x30 \<le> c \<and> c \<le> 0x39 then Some (unat c - 48)
      else if 0x41 \<le> c \<and> c \<le> 0x46 then Some (unat c - 55)
      else if 0x61 \<le> c \<and> c \<le> 0x66 then Some (unat c - 87)
      else None)"

text \<open>The unit after a backslash, other than \<open>u\<close>, and the unit it stands for.\<close>

definition simple_escape :: "unit16 \<Rightarrow> unit16 option" where
  "simple_escape e =
     (if e = 0x22 then Some 0x22
      else if e = 0x5C then Some 0x5C
      else if e = 0x2F then Some 0x2F
      else if e = 0x62 then Some 0x08
      else if e = 0x66 then Some 0x0C
      else if e = 0x6E then Some 0x0A
      else if e = 0x72 then Some 0x0D
      else if e = 0x74 then Some 0x09
      else None)"

text \<open>A string literal after its opening quote: the text and the input after the closing quote.\<close>

fun lex_string :: "jsstring \<Rightarrow> jsstring \<Rightarrow> (jsstring \<times> jsstring) option" where
  "lex_string acc [] = None"
| "lex_string acc (c # cs) =
     (if c = 0x22 then Some (rev acc, cs)
      else if c < 0x20 then None
      else if c = 0x5C then
        (case cs of
           [] \<Rightarrow> None
         | e # es \<Rightarrow>
             if e = 0x75 then
               (case es of
                  h1 # h2 # h3 # h4 # rest \<Rightarrow>
                    (case (hex_val h1, hex_val h2, hex_val h3, hex_val h4) of
                       (Some a, Some b, Some c', Some d) \<Rightarrow>
                         lex_string (word_of_nat (4096 * a + 256 * b + 16 * c' + d) # acc) rest
                     | _ \<Rightarrow> None)
                | _ \<Rightarrow> None)
             else
               (case simple_escape e of
                  None \<Rightarrow> None
                | Some u \<Rightarrow> lex_string (u # acc) es))
      else lex_string (c # acc) cs)"

definition digits_val :: "jsstring \<Rightarrow> int" where
  "digits_val ds = foldl (\<lambda>a d. 10 * a + int (digit_val d)) 0 ds"

definition starts_with :: "unit16 \<Rightarrow> jsstring \<Rightarrow> bool" where
  "starts_with c s = (case s of [] \<Rightarrow> False | x # xs \<Rightarrow> x = c)"

text \<open>
  A number literal: an optional minus sign, an integer part without a leading zero, an
  optional fraction and an optional exponent.  Each part is cut from the front of the
  input; the result is the value and the rest of the input.
\<close>

definition after_sign :: "jsstring \<Rightarrow> jsstring" where
  "after_sign s = (if starts_with 0x2D s then tl s else s)"

definition int_part :: "jsstring \<Rightarrow> jsstring" where
  "int_part s = takeWhile is_digit (after_sign s)"

definition after_int :: "jsstring \<Rightarrow> jsstring" where
  "after_int s = dropWhile is_digit (after_sign s)"

definition has_frac :: "jsstring \<Rightarrow> bool" where
  "has_frac s = starts_with 0x2E (after_int s)"

definition frac_part :: "jsstring \<Rightarrow> jsstring" where
  "frac_part s = (if has_frac s then takeWhile is_digit (tl (after_int s)) else [])"

definition after_frac :: "jsstring \<Rightarrow> jsstring" where
  "after_frac s = (if has_frac s then dropWhile is_digit (tl (after_int s)) else after_int s)"

definition has_exp :: "jsstring \<Rightarrow> bool" where
  "has_exp s = (starts_with 0x65 (after_frac s) \<or> starts_with 0x45 (after_frac s))"

definition exp_neg :: "jsstring \<Rightarrow> bool" where
  "exp_neg s = (has_exp s \<and> starts_with 0x2D (tl (after_frac s)))"

definition exp_body :: "jsstring \<Rightarrow> jsstring" where
  "exp_body s =
     (if starts_with 0x2D (tl (after_frac s)) \<or> starts_with 0x2B (tl (after_frac s))
      then tl (tl (after_frac s)) else tl (after_frac s))"

definition exp_part :: "jsstring \<Rightarrow> jsstring" where
  "exp_part s = (if has_exp s then takeWhile is_digit (exp_body s) else [])"

definition after_exp :: "jsstring \<Rightarrow> jsstring" where
  "after_exp s = (if has_exp s then dropWhile is_digit (exp_body s) else after_frac s)"

definition lex_number :: "jsstring \<Rightarrow> (json \<times> jsstring) option" where
  "lex_number s =
     (if int_part s = [] \<or> (1 < length (int_part s) \<and> starts_with 0x30 (int_part s))
         \<or> (has_frac s \<and> frac_part s = []) \<or> (has_exp s \<and> exp_part s = [])
      then None
      else Some (JNum (round_to_double
                         ((if starts_with 0x2D s then - 1 else 1)
                            * digits_val (int_part s @ frac_part s))
                         ((if exp_neg s then - 1 else 1) * digits_val (exp_part s)
                            - int (length (frac_part s)))),
                 after_exp s))"

lemma lex_string_shorter: "lex_string acc s = Some (t, r) \<Longrightarrow> length r < length s"
proof (induction acc s rule: lex_string.induct)
  case (1 acc)
  then show ?case by simp
next
  case (2 acc c cs)
  show ?case
  proof (cases "c = 0x22")
    case True
    with "2.prems" show ?thesis by simp
  next
    case nq: False
    show ?thesis
    proof (cases "c = 0x5C")
      case False
      with nq "2.prems" have "lex_string (c # acc) cs = Some (t, r)" and "\<not> c < 0x20"
        by (auto split: if_splits)
      with nq False "2.IH"(3) have "length r < length cs" by simp
      then show ?thesis by simp
    next
      case bs: True
      then have c20: "\<not> c < 0x20" by simp
      show ?thesis
      proof (cases cs)
        case Nil
        with nq bs "2.prems" show ?thesis by simp
      next
        case (Cons e es)
        show ?thesis
        proof (cases "e = 0x75")
          case False
          with nq bs c20 Cons "2.prems" obtain u where u: "simple_escape e = Some u"
            and l: "lex_string (u # acc) es = Some (t, r)"
            by (auto split: option.splits)
          from "2.IH"(2) [OF nq c20 bs Cons False u] l have "length r < length es" by simp
          with Cons show ?thesis by simp
        next
          case True
          with nq bs c20 Cons "2.prems" obtain h1 h2 h3 h4 rest a b c' d where
            es: "es = h1 # h2 # h3 # h4 # rest" and
            h: "hex_val h1 = Some a" "hex_val h2 = Some b" "hex_val h3 = Some c'" "hex_val h4 = Some d" and
            l: "lex_string (word_of_nat (4096 * a + 256 * b + 16 * c' + d) # acc) rest = Some (t, r)"
            by (simp split: list.splits option.splits)
          have "length r < length rest"
            using "2.IH"(1) [OF nq c20 bs Cons True es] h l by simp
          with Cons es show ?thesis by simp
        qed
      qed
    qed
  qed
qed
lemma dropWhile_shorter: "takeWhile P xs \<noteq> [] \<Longrightarrow> length (dropWhile P xs) < length xs"
  by (induction xs) (auto simp: less_Suc_eq_le length_dropWhile_le split: if_splits)

lemma after_int_shorter: "int_part s \<noteq> [] \<Longrightarrow> length (after_int s) < length s"
proof -
  assume "int_part s \<noteq> []"
  then have "length (after_int s) < length (after_sign s)"
    unfolding after_int_def int_part_def by (rule dropWhile_shorter)
  moreover have "length (after_sign s) \<le> length s" by (simp add: after_sign_def)
  ultimately show ?thesis by simp
qed

lemma dropWhile_tl_le: "length (dropWhile P (tl xs)) \<le> length xs"
proof -
  have "length (dropWhile P (tl xs)) \<le> length (tl xs)" by (rule length_dropWhile_le)
  also have "\<dots> \<le> length xs" by simp
  finally show ?thesis .
qed

lemma dropWhile_tl_tl_le: "length (dropWhile P (tl (tl xs))) \<le> length xs"
proof -
  have "length (dropWhile P (tl (tl xs))) \<le> length (tl xs)" by (rule dropWhile_tl_le)
  also have "\<dots> \<le> length xs" by simp
  finally show ?thesis .
qed

lemma after_frac_le: "length (after_frac s) \<le> length (after_int s)"
  by (simp add: after_frac_def dropWhile_tl_le)

lemma after_exp_le: "length (after_exp s) \<le> length (after_frac s)"
  by (simp add: after_exp_def exp_body_def dropWhile_tl_le dropWhile_tl_tl_le)

lemma lex_number_shorter:
  assumes "lex_number s = Some (v, r)"
  shows "length r < length s"
proof -
  from assms have ip: "int_part s \<noteq> []" and r: "r = after_exp s"
    by (simp_all add: lex_number_def split: if_split_asm)
  from after_int_shorter [OF ip] after_frac_le [of s] after_exp_le [of s] r
  show ?thesis by simp
qed

definition cons_token :: "token \<Rightarrow> token list option \<Rightarrow> token list option" where
  "cons_token t r = (case r of None \<Rightarrow> None | Some ts \<Rightarrow> Some (t # ts))"

function lex :: "jsstring \<Rightarrow> token list option" where
  "lex [] = Some []"
| "lex (c # cs) =
     (if is_json_ws c then lex cs
      else if c = 0x7B then cons_token TLBrace (lex cs)
      else if c = 0x7D then cons_token TRBrace (lex cs)
      else if c = 0x5B then cons_token TLBrack (lex cs)
      else if c = 0x5D then cons_token TRBrack (lex cs)
      else if c = 0x3A then cons_token TColon (lex cs)
      else if c = 0x2C then cons_token TComma (lex cs)
      else if c = 0x22 then
        (case lex_string [] cs of
           None \<Rightarrow> None
         | Some (s, rest) \<Rightarrow> cons_token (TScalar (JStr s)) (lex rest))
      else if c = 0x2D \<or> is_digit c then
        (case lex_number (c # cs) of
           None \<Rightarrow> None
         | Some (n, rest) \<Rightarrow> cons_token (TScalar n) (lex rest))
      else if is_prefix (js ''true'') (c # cs) then
        cons_token (TScalar (JBool True)) (lex (drop 3 cs))
      else if is_prefix (js ''false'') (c # cs) then
        cons_token (TScalar (JBool False)) (lex (drop 4 cs))
      else if is_prefix (js ''null'') (c # cs) then
        cons_token (TScalar JNull) (lex (drop 3 cs))
      else None)"
  by pat_completeness auto
termination
proof (relation "measure length")
  show "wf (measure length)" by simp
qed (auto dest: lex_string_shorter lex_number_shorter simp: less_Suc_eq_le)


subsection \<open>Objects\<close>

text \<open>
  An array index is the canonical decimal form of an integer below \<open>2^32 - 1\<close>.
  \<open>obj_put\<close> is \<open>CreateDataProperty\<close>: a key already there keeps its place and takes
  the new value; a new array index goes among the array indices, in ascending order; any
  other new key goes last.
\<close>

definition is_array_index :: "jsstring \<Rightarrow> bool" where
  "is_array_index k =
     (k \<noteq> [] \<and> list_all is_digit k \<and> (length k = 1 \<or> \<not> starts_with 0x30 k)
      \<and> digits_val k < 4294967295)"

fun obj_replace :: "(jsstring \<times> json) list \<Rightarrow> jsstring \<Rightarrow> json \<Rightarrow> (jsstring \<times> json) list" where
  "obj_replace [] k v = []"
| "obj_replace ((k', v') # ps) k v =
     (if k' = k then (k, v) # ps else (k', v') # obj_replace ps k v)"

fun obj_insert_index :: "(jsstring \<times> json) list \<Rightarrow> jsstring \<Rightarrow> json \<Rightarrow> (jsstring \<times> json) list" where
  "obj_insert_index [] k v = [(k, v)]"
| "obj_insert_index ((k', v') # ps) k v =
     (if is_array_index k' \<and> digits_val k' < digits_val k
      then (k', v') # obj_insert_index ps k v
      else (k, v) # (k', v') # ps)"

definition obj_put :: "(jsstring \<times> json) list \<Rightarrow> jsstring \<Rightarrow> json \<Rightarrow> (jsstring \<times> json) list" where
  "obj_put ps k v =
     (if k \<in> fst ` set ps then obj_replace ps k v
      else if is_array_index k then obj_insert_index ps k v
      else ps @ [(k, v)])"

subsection \<open>The grammar\<close>

text \<open>
  The JSON grammar as a pushdown automaton over the tokens.  A frame of the stack is an
  array or an object under construction; the mode says which tokens may come next.
\<close>

datatype frame =
    InArr "json list"
  | InObj "(jsstring \<times> json) list" jsstring   \<comment> \<open>the properties so far and the current key\<close>

datatype mode =
    WantValue        \<comment> \<open>a value\<close>
  | WantValueOrEnd   \<comment> \<open>after \<open>[\<close>: a value or \<open>]\<close>\<close>
  | WantKeyOrEnd     \<comment> \<open>after \<open>{\<close>: a key or \<open>}\<close>\<close>
  | WantKey          \<comment> \<open>after a comma in an object: a key\<close>
  | WantColon        \<comment> \<open>after a key\<close>
  | AfterValue       \<comment> \<open>after a value inside an array or an object: a comma or the end\<close>
  | Done json        \<comment> \<open>the text's value is complete\<close>

text \<open>A complete value goes to the innermost open array or object, or is the result.\<close>

fun deliver :: "json \<Rightarrow> frame list \<Rightarrow> mode \<times> frame list" where
  "deliver v [] = (Done v, [])"
| "deliver v (InArr xs # st) = (AfterValue, InArr (xs @ [v]) # st)"
| "deliver v (InObj ps k # st) = (AfterValue, InObj (obj_put ps k v) k # st)"

fun begin_value :: "token \<Rightarrow> frame list \<Rightarrow> (mode \<times> frame list) option" where
  "begin_value (TScalar v) st = Some (deliver v st)"
| "begin_value TLBrack st = Some (WantValueOrEnd, InArr [] # st)"
| "begin_value TLBrace st = Some (WantKeyOrEnd, InObj [] [] # st)"
| "begin_value t st = None"

fun parse_step :: "mode \<Rightarrow> frame list \<Rightarrow> token \<Rightarrow> (mode \<times> frame list) option" where
  "parse_step WantValue st t = begin_value t st"
| "parse_step WantValueOrEnd (InArr xs # st) TRBrack = Some (deliver (JArr xs) st)"
| "parse_step WantValueOrEnd st t = begin_value t st"
| "parse_step WantKeyOrEnd (InObj ps k # st) TRBrace = Some (deliver (JObj ps) st)"
| "parse_step WantKeyOrEnd (InObj ps k # st) (TScalar (JStr k')) = Some (WantColon, InObj ps k' # st)"
| "parse_step WantKey (InObj ps k # st) (TScalar (JStr k')) = Some (WantColon, InObj ps k' # st)"
| "parse_step WantColon st TColon = Some (WantValue, st)"
| "parse_step AfterValue (InArr xs # st) TComma = Some (WantValue, InArr xs # st)"
| "parse_step AfterValue (InArr xs # st) TRBrack = Some (deliver (JArr xs) st)"
| "parse_step AfterValue (InObj ps k # st) TComma = Some (WantKey, InObj ps k # st)"
| "parse_step AfterValue (InObj ps k # st) TRBrace = Some (deliver (JObj ps) st)"
| "parse_step m st t = None"

fun parse_tokens :: "mode \<Rightarrow> frame list \<Rightarrow> token list \<Rightarrow> json option" where
  "parse_tokens (Done v) [] [] = Some v"
| "parse_tokens m st [] = None"
| "parse_tokens m st (t # ts) =
     (case parse_step m st t of
        None \<Rightarrow> None
      | Some (m', st') \<Rightarrow> parse_tokens m' st' ts)"

text \<open>\<open>JSON.parse\<close>: the value of the text, or a SyntaxError.\<close>

definition JSON_parse :: "jsstring \<Rightarrow> js_error + json" where
  "JSON_parse s =
     (case lex s of
        None \<Rightarrow> Inl SyntaxError
      | Some ts \<Rightarrow>
          (case parse_tokens WantValue [] ts of
             None \<Rightarrow> Inl SyntaxError
           | Some v \<Rightarrow> Inr v))"


section \<open>JSON.stringify\<close>

text \<open>
  \<open>QuoteJSONString\<close>: the quote, the backslash and the control characters are escaped, a
  surrogate that is not half of a pair is written as a \<open>\u\<close> escape, every other unit
  stands for itself.
\<close>

definition hex_digit :: "nat \<Rightarrow> unit16" where
  "hex_digit n = (if n < 10 then word_of_nat (48 + n) else word_of_nat (87 + n))"

definition unicode_escape :: "unit16 \<Rightarrow> jsstring" where
  "unicode_escape c =
     [0x5C, 0x75, hex_digit (unat c div 4096), hex_digit (unat c div 256 mod 16),
      hex_digit (unat c div 16 mod 16), hex_digit (unat c mod 16)]"

definition is_high_surrogate :: "unit16 \<Rightarrow> bool" where
  "is_high_surrogate c = (0xD800 \<le> c \<and> c \<le> 0xDBFF)"

definition is_low_surrogate :: "unit16 \<Rightarrow> bool" where
  "is_low_surrogate c = (0xDC00 \<le> c \<and> c \<le> 0xDFFF)"

definition quote_unit :: "unit16 \<Rightarrow> jsstring" where
  "quote_unit c =
     (if c = 0x08 then [0x5C, 0x62]
      else if c = 0x09 then [0x5C, 0x74]
      else if c = 0x0A then [0x5C, 0x6E]
      else if c = 0x0C then [0x5C, 0x66]
      else if c = 0x0D then [0x5C, 0x72]
      else if c = 0x22 then [0x5C, 0x22]
      else if c = 0x5C then [0x5C, 0x5C]
      else if c < 0x20 \<or> is_high_surrogate c \<or> is_low_surrogate c then unicode_escape c
      else [c])"

fun quote_units :: "jsstring \<Rightarrow> jsstring" where
  "quote_units [] = []"
| "quote_units [c] = quote_unit c"
| "quote_units (c # d # cs) =
     (if is_high_surrogate c \<and> is_low_surrogate d then c # d # quote_units cs
      else quote_unit c @ quote_units (d # cs))"

definition QuoteJSONString :: "jsstring \<Rightarrow> jsstring" where
  "QuoteJSONString s = 0x22 # quote_units s @ [0x22]"

text \<open>
  \<open>Number::toString\<close>.  The digits are those of the decimal \<open>s * 10^p\<close> with the fewest
  digits that rounds to the double, and among these the one nearest to it (a tie to the
  even \<open>s\<close>).  For \<open>k\<close> digits the two candidates are the integers next to
  \<open>N / D * 10^(k - n)\<close>, where \<open>N / D\<close> is the double and \<open>10^(n - 1) \<le> N / D < 10^n\<close>; 17
  digits always suffice.
\<close>

definition candidate :: "jsnumber \<Rightarrow> int \<Rightarrow> int \<Rightarrow> int \<Rightarrow> int option" where
  "candidate x N D p =
     (let lo = N div D;
          hi = lo + 1;
          r = N mod D;
          ok_lo = (round_to_double lo p = x);
          ok_hi = (round_to_double hi p = x)
      in if ok_lo \<and> ok_hi
         then Some (if 2 * r < D then lo else if D < 2 * r then hi else if even lo then lo else hi)
         else if ok_lo then Some lo
         else if ok_hi then Some hi
         else None)"

function shortest :: "jsnumber \<Rightarrow> int \<Rightarrow> int \<Rightarrow> int \<Rightarrow> int \<Rightarrow> int \<times> int" where
  "shortest x N D n k =
     (case candidate x (N * 10 ^ nat (k - n)) (D * 10 ^ nat (n - k)) (n - k) of
        Some s \<Rightarrow> (s, n - k)
      | None \<Rightarrow>
          if 17 \<le> k
          then (round_half_even (N * 10 ^ nat (k - n)) (D * 10 ^ nat (n - k)), n - k)
          else shortest x N D n (k + 1))"
  by pat_completeness auto
termination
  by (relation "measure (\<lambda>(x, N, D, n, k). nat (17 - k))") auto

function strip_zeros :: "int \<Rightarrow> int \<Rightarrow> int \<times> int" where
  "strip_zeros s p =
     (if s \<noteq> 0 \<and> s mod 10 = 0 then strip_zeros (s div 10) (p + 1) else (s, p))"
  by pat_completeness auto
termination
  by (relation "measure (\<lambda>(s, p). nat \<bar>s\<bar>)") auto

function int_digits :: "int \<Rightarrow> jsstring" where
  "int_digits n =
     (if n < 10 then [word_of_int (48 + n)]
      else int_digits (n div 10) @ [word_of_int (48 + n mod 10)])"
  by pat_completeness auto
termination
  by (relation "measure nat") auto

text \<open>
  With \<open>ds\<close> the \<open>k\<close> digits and \<open>n\<close> the position of the decimal point: the positional
  form when \<open>-6 < n \<le> 21\<close>, the exponent form otherwise.
\<close>

definition format_digits :: "jsstring \<Rightarrow> int \<Rightarrow> jsstring" where
  "format_digits ds n =
     (let k = int (length ds)
      in if k \<le> n \<and> n \<le> 21 then ds @ replicate (nat (n - k)) 0x30
         else if 0 < n \<and> n \<le> 21 then take (nat n) ds @ js ''.'' @ drop (nat n) ds
         else if - 6 < n \<and> n \<le> 0 then js ''0.'' @ replicate (nat (- n)) 0x30 @ ds
         else (if k = 1 then ds else take 1 ds @ js ''.'' @ drop 1 ds) @ js ''e''
              @ (if 1 \<le> n then js ''+'' else js ''-'') @ int_digits \<bar>n - 1\<bar>)"

definition Number_toString :: "jsnumber \<Rightarrow> jsstring" where
  "Number_toString x =
     (case x of
        Infinite neg \<Rightarrow> (if neg then js ''-Infinity'' else js ''Infinity'')
      | Finite m e \<Rightarrow>
          if m = 0 then js ''0''
          else
            (let N = \<bar>m\<bar> * 2 ^ nat e;
                 D = 2 ^ nat (- e);
                 (s0, p0) = shortest (Finite \<bar>m\<bar> e) N D (floor_log10 N D + 1) 1;
                 (s, p) = strip_zeros s0 p0;
                 ds = int_digits s
             in (if m < 0 then js ''-'' else []) @ format_digits ds (p + int (length ds))))"

text \<open>
  \<open>JSON.stringify\<close> with one argument, on a value of \<open>JSON.parse\<close>: no white space, an
  infinite number as \<open>null\<close>, the properties of an object in their order.
\<close>

fun ser :: "json \<Rightarrow> jsstring"
  and ser_elems :: "json list \<Rightarrow> jsstring"
  and ser_props :: "(jsstring \<times> json) list \<Rightarrow> jsstring" where
  "ser JNull = js ''null''"
| "ser (JBool b) = (if b then js ''true'' else js ''false'')"
| "ser (JNum x) = (case x of Infinite neg \<Rightarrow> js ''null'' | Finite m e \<Rightarrow> Number_toString x)"
| "ser (JStr s) = QuoteJSONString s"
| "ser (JArr xs) = js ''['' @ ser_elems xs @ js '']''"
| "ser (JObj ps) = js ''{'' @ ser_props ps @ js ''}''"
| "ser_elems [] = []"
| "ser_elems [x] = ser x"
| "ser_elems (x # y # xs) = ser x @ js '','' @ ser_elems (y # xs)"
| "ser_props [] = []"
| "ser_props [(k, v)] = QuoteJSONString k @ js '':'' @ ser v"
| "ser_props ((k, v) # p # ps) =
     QuoteJSONString k @ js '':'' @ ser v @ js '','' @ ser_props (p # ps)"

definition JSON_stringify :: "json \<Rightarrow> jsstring" where
  "JSON_stringify v = ser v"


section \<open>The diagnostic panel's parser (text-output-panel.tsx)\<close>

text \<open>
  The panel's \<open>textContent\<close> is what \<open>getLatestTextContent\<close> returned: a string, or
  \<open>undefined\<close> (\<open>None\<close>).  The fields of the parsed payload are whatever JavaScript values
  the JSON text held.
\<close>

record payload =
  mainContent :: json
  webSources :: json
  youtubeVideos :: json
  structured :: bool

text \<open>\<open>JSON.parse\<close> of an argument that may be \<open>undefined\<close>, which reads as the text \<open>undefined\<close>.\<close>

definition JSON_parse_arg :: "jsstring option \<Rightarrow> js_error + json" where
  "JSON_parse_arg raw = (case raw of None \<Rightarrow> Inl SyntaxError | Some s \<Rightarrow> JSON_parse s)"

text \<open>\<open>Array.isArray(x) ? x : []\<close>\<close>

definition array_or_empty :: "json option \<Rightarrow> json" where
  "array_or_empty x = (case x of Some (JArr xs) \<Rightarrow> JArr xs | _ \<Rightarrow> JArr [])"

text \<open>
  The body of the \<open>try\<close> block of \<open>parseStructured\<close>: \<open>Inl\<close> is a thrown exception,
  \<open>Inr None\<close> the end of the block without a \<open>return\<close>.
\<close>

definition parse_structured_try :: "jsstring option \<Rightarrow> js_error + payload option" where
  "parse_structured_try raw =
     (case JSON_parse_arg raw of
        Inl e \<Rightarrow> Inl e
      | Inr parsed \<Rightarrow>
          if truthy parsed then
            (case get_prop parsed (js ''content'') of
               Inl e \<Rightarrow> Inl e
             | Inr None \<Rightarrow> Inr None
             | Inr (Some content) \<Rightarrow>
                 if truthy content then
                   (case get_prop parsed (js ''web_sources'') of
                      Inl e \<Rightarrow> Inl e
                    | Inr ws \<Rightarrow>
                        (case get_prop parsed (js ''youtube_videos'') of
                           Inl e \<Rightarrow> Inl e
                         | Inr yv \<Rightarrow>
                             Inr (Some \<lparr>mainContent = content,
                                        webSources = array_or_empty ws,
                                        youtubeVideos = array_or_empty yv,
                                        structured = True\<rparr>)))
                 else Inr None)
          else Inr None)"

text \<open>\<open>parseStructured\<close>: the empty \<open>catch\<close> swallows the exception; \<open>None\<close> is \<open>null\<close>.\<close>

definition parseStructured :: "jsstring option \<Rightarrow> payload option" where
  "parseStructured raw =
     (case parse_structured_try raw of
        Inl e \<Rightarrow> None
      | Inr r \<Rightarrow> r)"

definition legacyParse :: "jsstring option \<Rightarrow> payload" where
  "legacyParse content =
     (case content of
        None \<Rightarrow> \<lparr>mainContent = JStr [], webSources = JArr [], youtubeVideos = JArr [],
                  structured = False\<rparr>
      | Some c \<Rightarrow>
          if c = [] then \<lparr>mainContent = JStr [], webSources = JArr [], youtubeVideos = JArr [],
                          structured = False\<rparr>
          else \<lparr>mainContent = JStr c, webSources = JArr [], youtubeVideos = JArr [],
                 structured = False\<rparr>)"

text \<open>\<open>const parsed = parseStructured(textContent) || legacyParse(textContent)\<close>\<close>

definition parsed_payload :: "jsstring option \<Rightarrow> payload" where
  "parsed_payload textContent =
     (case parseStructured textContent of
        Some p \<Rightarrow> p
      | None \<Rightarrow> legacyParse textContent)"


section \<open>The session view\<close>

record chat_message =
  msg_id :: jsstring
  from_isLocal :: "bool option"   \<comment> \<open>\<open>from?.isLocal\<close>: \<open>None\<close> when the message has no sender\<close>
  message :: json

text \<open>\<open>!msg.from?.isLocal\<close>\<close>

definition is_assistant :: "chat_message \<Rightarrow> bool" where
  "is_assistant msg = (case from_isLocal msg of None \<Rightarrow> True | Some b \<Rightarrow> \<not> b)"

text \<open>\<open>/^VOICE:([\s\S]*?)\|\|\|TEXT:[\s\S]*$/\<close>\<close>

definition voice_re :: regex where
  "voice_re =
     \<lparr>atoms = [Bol] @ lits ''VOICE:'' @ [Open 1, LazyStar AnyUnit, Close 1] @ lits ''|||TEXT:''
              @ [Star AnyUnit, Eol],
      multiline = False\<rparr>"

text \<open>\<open>/^VOICE:([\s\S]*?)\|\|\|TEXT:([\s\S]*)$/\<close>\<close>

definition voice_text_re :: regex where
  "voice_text_re =
     \<lparr>atoms = [Bol] @ lits ''VOICE:'' @ [Open 1, LazyStar AnyUnit, Close 1] @ lits ''|||TEXT:''
              @ [Open 2, Star AnyUnit, Close 2, Eol],
      multiline = False\<rparr>"

subsection \<open>The chat display (both variants)\<close>

text \<open>
  The \<open>try\<close> block of \<open>displayMessages\<close>: \<open>Inr (Some v)\<close> returns the message with \<open>v\<close> as
  its text, \<open>Inr None\<close> leaves the block, \<open>Inl\<close> is an exception.
\<close>

definition voice_output_try :: "jsstring \<Rightarrow> js_error + json option" where
  "voice_output_try raw =
     (case JSON_parse raw of
        Inl e \<Rightarrow> Inl e
      | Inr parsed \<Rightarrow>
          if truthy parsed then
            (case get_prop parsed (js ''voice_output'') of
               Inl e \<Rightarrow> Inl e
             | Inr v \<Rightarrow> if truthy_opt v then Inr v else Inr None)
          else Inr None)"

text \<open>The rest of the callback: the \<open>VOICE:...|||TEXT:...\<close> pattern, or the message as it is.\<close>

definition voice_pattern :: "jsstring \<Rightarrow> js_error + json" where
  "voice_pattern raw =
     (case match_js raw voice_re of
        Some (m, caps) \<Rightarrow>
          (case capture caps 1 of
             None \<Rightarrow> Inl TypeError   \<comment> \<open>\<open>.trim()\<close> of \<open>undefined\<close>\<close>
           | Some g \<Rightarrow> Inr (JStr (trim g)))
      | None \<Rightarrow> Inr (JStr raw))"

text \<open>
  The text \<open>displayMessages\<close> of session-view.tsx gives a message whose text is the string
  \<open>raw\<close>: the display-text extractor.
\<close>

definition display_text :: "jsstring \<Rightarrow> js_error + json" where
  "display_text raw =
     (case voice_output_try raw of
        Inr (Some v) \<Rightarrow> Inr v
      | Inr None \<Rightarrow> voice_pattern raw
      | Inl e \<Rightarrow> voice_pattern raw)"

text \<open>The same in the local-parse variant, which has the \<open>try\<close> block twice.\<close>

definition display_text_local :: "jsstring \<Rightarrow> js_error + json" where
  "display_text_local raw =
     (case voice_output_try raw of
        Inr (Some v) \<Rightarrow> Inr v
      | _ \<Rightarrow>
          (case voice_output_try raw of
             Inr (Some v) \<Rightarrow> Inr v
           | _ \<Rightarrow> voice_pattern raw))"

definition displayMessage :: "(jsstring \<Rightarrow> js_error + json) \<Rightarrow> chat_message \<Rightarrow> js_error + chat_message" where
  "displayMessage extract m =
     (case message m of
        JStr raw \<Rightarrow>
          (case extract raw of
             Inl e \<Rightarrow> Inl e
           | Inr v \<Rightarrow> Inr (m\<lparr>message := v\<rparr>))
      | _ \<Rightarrow> Inr m)"

text \<open>\<open>messages.map\<close>: the first exception of the callback ends the whole map.\<close>

fun map_throwing :: "('a \<Rightarrow> js_error + 'b) \<Rightarrow> 'a list \<Rightarrow> js_error + 'b list" where
  "map_throwing f [] = Inr []"
| "map_throwing f (x # xs) =
     (case f x of
        Inl e \<Rightarrow> Inl e
      | Inr y \<Rightarrow>
          (case map_throwing f xs of
             Inl e \<Rightarrow> Inl e
           | Inr ys \<Rightarrow> Inr (y # ys)))"

definition displayMessages :: "chat_message list \<Rightarrow> js_error + chat_message list" where
  "displayMessages messages = map_throwing (displayMessage display_text) messages"

definition displayMessages_local :: "chat_message list \<Rightarrow> js_error + chat_message list" where
  "displayMessages_local messages = map_throwing (displayMessage display_text_local) messages"

subsection \<open>The local-parse variant of \<open>getLatestTextContent\<close> (unnamed/part_000)\<close>

text \<open>
  \<open>p && p[key] && typeof p[key].content === 'string'\<close>, and then
  \<open>return JSON.stringify(p[key])\<close>.
\<close>

definition report_in :: "json \<Rightarrow> jsstring \<Rightarrow> js_error + jsstring option" where
  "report_in p key =
     (if truthy p then
        (case get_prop p key of
           Inl e \<Rightarrow> Inl e
         | Inr None \<Rightarrow> Inr None
         | Inr (Some r) \<Rightarrow>
             if truthy r then
               (case get_prop r (js ''content'') of
                  Inl e \<Rightarrow> Inl e
                | Inr c \<Rightarrow> if is_string c then Inr (Some (JSON_stringify r)) else Inr None)
             else Inr None)
      else Inr None)"

text \<open>The first and the second \<open>try\<close> block.\<close>

definition diagnostic_report_try :: "jsstring \<Rightarrow> js_error + jsstring option" where
  "diagnostic_report_try raw =
     (case JSON_parse raw of
        Inl e \<Rightarrow> Inl e
      | Inr parsed \<Rightarrow> report_in parsed (js ''diagnostic_report''))"

definition text_output_try :: "jsstring \<Rightarrow> js_error + jsstring option" where
  "text_output_try raw =
     (case JSON_parse raw of
        Inl e \<Rightarrow> Inl e
      | Inr parsed \<Rightarrow> report_in parsed (js ''text_output''))"

text \<open>The \<open>try\<close> block on the TEXT segment of the pattern.\<close>

definition text_segment_try :: "jsstring option \<Rightarrow> js_error + jsstring option" where
  "text_segment_try textSegment =
     (case JSON_parse_arg textSegment of
        Inl e \<Rightarrow> Inl e
      | Inr parsedText \<Rightarrow>
          (case report_in parsedText (js ''diagnostic_report'') of
             Inl e \<Rightarrow> Inl e
           | Inr (Some r) \<Rightarrow> Inr (Some r)
           | Inr None \<Rightarrow>
               if truthy parsedText then
                 (case get_prop parsedText (js ''content'') of
                    Inl e \<Rightarrow> Inl e
                  | Inr c \<Rightarrow>
                      if is_string c then Inr (Some (JSON_stringify parsedText)) else Inr None)
               else Inr None))"

definition latest_of_raw :: "jsstring \<Rightarrow> jsstring option" where
  "latest_of_raw raw =
     (case diagnostic_report_try raw of
        Inr (Some r) \<Rightarrow> Some r
      | _ \<Rightarrow>
          (case text_output_try raw of
             Inr (Some r) \<Rightarrow> Some r
           | _ \<Rightarrow>
               (case match_js raw voice_text_re of
                  Some (m, caps) \<Rightarrow>
                    (case text_segment_try (capture caps 2) of
                       Inr (Some r) \<Rightarrow> Some r
                     | Inr None \<Rightarrow> Some []
                     | Inl e \<Rightarrow> capture caps 2)   \<comment> \<open>\<open>catch { return textSegment }\<close>\<close>
                | None \<Rightarrow> Some [])))"

definition getLatestTextContent_local :: "chat_message list \<Rightarrow> jsstring option" where
  "getLatestTextContent_local messages =
     (let assistantMessages = filter is_assistant messages
      in if assistantMessages = [] then Some []
         else
           (case message (last assistantMessages) of
              JStr raw \<Rightarrow> latest_of_raw raw
            | _ \<Rightarrow> Some []))"

text \<open>What the panel of the local-parse variant shows for a list of messages.\<close>

definition panel_local :: "chat_message list \<Rightarrow> payload" where
  "panel_local messages = parsed_payload (getLatestTextContent_local messages)"

subsection \<open>The remote-fetch variant (session-view.tsx)\<close>

text \<open>
  What \<open>fetch\<close> gives: the promise is rejected with a cause, or there is a response with a
  status and a body.  \<open>response.ok\<close> is a status from 200 to 299.
\<close>

datatype fetch_outcome =
    Rejected jsstring
  | Responded nat jsstring

definition response_ok :: "nat \<Rightarrow> bool" where
  "response_ok status = (200 \<le> status \<and> status \<le> 299)"

text \<open>
  The \<open>try\<close> block of \<open>fetchDiagnosticData\<close>: the new value of \<open>diagnosticData\<close> if it is
  set, and the result.
\<close>

definition fetch_diagnostic_try :: "fetch_outcome \<Rightarrow> js_error + (jsstring option \<times> bool)" where
  "fetch_diagnostic_try outcome =
     (case outcome of
        Rejected cause \<Rightarrow> Inl (Error cause)
      | Responded status body \<Rightarrow>
          if response_ok status then
            (case JSON_parse body of
               Inl e \<Rightarrow> Inl e
             | Inr result \<Rightarrow>
                 (case get_prop result (js ''data'') of
                    Inl e \<Rightarrow> Inl e
                  | Inr None \<Rightarrow> Inr (None, False)
                  | Inr (Some d) \<Rightarrow>
                      if truthy d then Inr (Some (JSON_stringify d), True)
                      else Inr (None, False)))
          else Inr (None, False))"

text \<open>\<open>fetchDiagnosticData\<close> on the held \<open>diagnosticData\<close>: its new value and the result.\<close>

definition fetchDiagnosticData :: "fetch_outcome \<Rightarrow> jsstring \<Rightarrow> jsstring \<times> bool" where
  "fetchDiagnosticData outcome diagnosticData =
     (case fetch_diagnostic_try outcome of
        Inl e \<Rightarrow> (diagnosticData, False)
      | Inr (None, r) \<Rightarrow> (diagnosticData, r)
      | Inr (Some formattedData, r) \<Rightarrow> (formattedData, r))"

definition getLatestTextContent :: "jsstring \<Rightarrow> jsstring option" where
  "getLatestTextContent diagnosticData =
     (if diagnosticData \<noteq> [] then Some diagnosticData else Some [])"


section \<open>The connection details (useConnectionDetails.ts)\<close>

definition connection_try :: "fetch_outcome \<Rightarrow> js_error + json" where
  "connection_try outcome =
     (case outcome of
        Rejected cause \<Rightarrow> Inl (Error cause)
      | Responded status body \<Rightarrow>
          if \<not> response_ok status then Inl (Error body)
          else JSON_parse body)"

definition generic_message :: jsstring where
  "generic_message = js ''Error fetching connection details!''"

definition fetchConnectionDetails :: "fetch_outcome \<Rightarrow> js_error + json" where
  "fetchConnectionDetails outcome =
     (case connection_try outcome of
        Inl error \<Rightarrow> Inl (Error generic_message)
      | Inr details \<Rightarrow> Inr details)"

section \<open>Evaluation on concrete inputs\<close>

lemmas str_eval = js_def NL_def BULLET_def is_line_terminator_def is_white_space_def is_space_def
  trim_def is_digit_def digit_val_def starts_with_def

lemmas regex_eval = lits_def match_at_def match_js_def capture_def group_def replace_all_def

lemmas lex_eval = is_json_ws_def hex_val_def simple_escape_def digits_val_def after_sign_def
  int_part_def after_int_def has_frac_def frac_part_def after_frac_def has_exp_def exp_neg_def
  exp_body_def exp_part_def after_exp_def lex_number_def cons_token_def

lemmas parse_eval = is_array_index_def obj_put_def JSON_parse_def JSON_parse_arg_def

lemmas number_eval = round_to_double_def floor_log2_def floor_log10_def round_half_even_def
  candidate_def format_digits_def Number_toString_def

lemmas ser_eval = hex_digit_def unicode_escape_def is_high_surrogate_def is_low_surrogate_def
  quote_unit_def QuoteJSONString_def JSON_stringify_def

lemmas panel_eval = array_or_empty_def parse_structured_try_def parseStructured_def
  legacyParse_def parsed_payload_def

lemmas local_eval = is_assistant_def voice_re_def voice_text_re_def voice_output_try_def
  voice_pattern_def display_text_def display_text_local_def report_in_def
  diagnostic_report_try_def text_output_try_def text_segment_try_def latest_of_raw_def
  getLatestTextContent_local_def panel_local_def

lemmas fetch_eval = response_ok_def fetch_diagnostic_try_def fetchDiagnosticData_def
  connection_try_def fetchConnectionDetails_def


section \<open>The panel's parser always yields lists\<close>

definition is_list :: "json \<Rightarrow> bool" where
  "is_list v = (case v of JArr xs \<Rightarrow> True | _ \<Rightarrow> False)"

lemma array_or_empty_list: "is_list (array_or_empty x)"
  by (cases x rule: isArray.cases) (simp_all add: array_or_empty_def is_list_def)

lemma array_or_empty_not_array: "\<not> isArray x \<Longrightarrow> array_or_empty x = JArr []"
  by (cases x rule: isArray.cases) (simp_all add: array_or_empty_def)

lemma parse_structured_try_lists:
  "parse_structured_try raw = Inr (Some q) \<Longrightarrow>
     structured q \<and> is_list (webSources q) \<and> is_list (youtubeVideos q)"
  unfolding parse_structured_try_def
  by (auto simp: array_or_empty_list split: sum.splits option.splits if_splits)

lemma legacyParse_lists:
  "\<not> structured (legacyParse raw) \<and> webSources (legacyParse raw) = JArr []
     \<and> youtubeVideos (legacyParse raw) = JArr []"
  by (simp add: legacyParse_def split: option.splits)

lemma parsed_payload_cases:
  "(parseStructured raw = None \<and> parsed_payload raw = legacyParse raw)
     \<or> (parse_structured_try raw = Inr (Some (parsed_payload raw)))"
  by (simp add: parsed_payload_def parseStructured_def split: sum.splits option.splits)

lemma parsed_payload_structured:
  assumes "JSON_parse_arg raw = Inr p" and "truthy p"
    and "get_prop p (js ''content'') = Inr (Some c)" and "truthy c"
    and "get_prop p (js ''web_sources'') = Inr ws"
    and "get_prop p (js ''youtube_videos'') = Inr yv"
  shows "parsed_payload raw =
    \<lparr>mainContent = c, webSources = array_or_empty ws, youtubeVideos = array_or_empty yv,
     structured = True\<rparr>"
  using assms by (simp add: parsed_payload_def parseStructured_def parse_structured_try_def)

text \<open>
  C10.  Whatever the panel is given (a string, structured or not, the empty string, or
  \<open>undefined\<close>), \<open>webSources\<close> and \<open>youtubeVideos\<close> of the parsed payload are arrays.  When
  the input is JSON with a truthy \<open>content\<close>, a \<open>web_sources\<close> or \<open>youtube_videos\<close> field
  that is missing or not an array becomes the empty array; when the payload is not
  structured, both are the empty array.
\<close>

theorem parsed_payload_lists:
  "is_list (webSources (parsed_payload raw)) \<and> is_list (youtubeVideos (parsed_payload raw))
   \<and> (JSON_parse_arg raw = Inr p \<and> truthy p
        \<and> get_prop p (js ''content'') = Inr (Some c) \<and> truthy c
        \<and> get_prop p (js ''web_sources'') = Inr ws
        \<and> get_prop p (js ''youtube_videos'') = Inr yv
      \<longrightarrow> structured (parsed_payload raw)
          \<and> (\<not> isArray ws \<longrightarrow> webSources (parsed_payload raw) = JArr [])
          \<and> (\<not> isArray yv \<longrightarrow> youtubeVideos (parsed_payload raw) = JArr []))
   \<and> (\<not> structured (parsed_payload raw)
      \<longrightarrow> webSources (parsed_payload raw) = JArr [] \<and> youtubeVideos (parsed_payload raw) = JArr [])"
proof -
  have lists: "is_list (webSources (parsed_payload raw)) \<and> is_list (youtubeVideos (parsed_payload raw))"
    and unstructured: "\<not> structured (parsed_payload raw) \<longrightarrow> parsed_payload raw = legacyParse raw"
  proof -
    from parsed_payload_cases [of raw] consider
      (legacy) "parsed_payload raw = legacyParse raw"
      | (struct) "parse_structured_try raw = Inr (Some (parsed_payload raw))"
      by blast
    then show "is_list (webSources (parsed_payload raw)) \<and> is_list (youtubeVideos (parsed_payload raw))"
    proof cases
      case legacy
      with legacyParse_lists [of raw] show ?thesis by (simp add: is_list_def)
    next
      case struct
      from parse_structured_try_lists [OF struct] show ?thesis by simp
    qed
    from parsed_payload_cases [of raw] parse_structured_try_lists [of raw "parsed_payload raw"]
    show "\<not> structured (parsed_payload raw) \<longrightarrow> parsed_payload raw = legacyParse raw"
      by blast
  qed
  have struct: "structured (parsed_payload raw)
          \<and> (\<not> isArray ws \<longrightarrow> webSources (parsed_payload raw) = JArr [])
          \<and> (\<not> isArray yv \<longrightarrow> youtubeVideos (parsed_payload raw) = JArr [])"
    if h: "JSON_parse_arg raw = Inr p \<and> truthy p
        \<and> get_prop p (js ''content'') = Inr (Some c) \<and> truthy c
        \<and> get_prop p (js ''web_sources'') = Inr ws
        \<and> get_prop p (js ''youtube_videos'') = Inr yv"
  proof -
    from h have h1: "JSON_parse_arg raw = Inr p" and h2: "truthy p"
      and h3: "get_prop p (js ''content'') = Inr (Some c)" and h4: "truthy c"
      and h5: "get_prop p (js ''web_sources'') = Inr ws"
      and h6: "get_prop p (js ''youtube_videos'') = Inr yv"
      by blast+
    have eq: "parsed_payload raw =
      \<lparr>mainContent = c, webSources = array_or_empty ws, youtubeVideos = array_or_empty yv,
       structured = True\<rparr>"
      by (rule parsed_payload_structured [OF h1 h2 h3 h4 h5 h6])
    show ?thesis by (simp add: eq array_or_empty_not_array)
  qed
  have legacy: "webSources (parsed_payload raw) = JArr [] \<and> youtubeVideos (parsed_payload raw) = JArr []"
    if "\<not> structured (parsed_payload raw)"
    using that unstructured legacyParse_lists [of raw] by simp
  from lists struct legacy show ?thesis by blast
qed

theorem parsed_payload_lists_witness:
  \<open>JSON_parse_arg (Some (js ''{"content":"c","web_sources":{"a":1}}''))
      = Inr (JObj [(js ''content'', JStr (js ''c'')),
                   (js ''web_sources'', JObj [(js ''a'', JNum (Finite 1 0))])])
   \<and> webSources (parsed_payload (Some (js ''{"content":"c","web_sources":{"a":1}}''))) = JArr []
   \<and> youtubeVideos (parsed_payload (Some (js ''{"content":"c","web_sources":{"a":1}}''))) = JArr []
   \<and> \<not> structured (parsed_payload (Some (js ''plain text'')))
   \<and> webSources (parsed_payload (Some (js ''plain text''))) = JArr []
   \<and> youtubeVideos (parsed_payload (Some (js ''plain text''))) = JArr []\<close>
proof -
  let ?raw = \<open>Some (js ''{"content":"c","web_sources":{"a":1}}'')\<close>
  let ?p = \<open>JObj [(js ''content'', JStr (js ''c'')), (js ''web_sources'', JObj [(js ''a'', JNum (Finite 1 0))])]\<close>
  have p: "JSON_parse_arg ?raw = Inr ?p"
    by code_simp
  have props: "truthy ?p" "get_prop ?p (js ''content'') = Inr (Some (JStr (js ''c'')))"
    "truthy (JStr (js ''c''))"
    "get_prop ?p (js ''web_sources'') = Inr (Some (JObj [(js ''a'', JNum (Finite 1 0))]))"
    "get_prop ?p (js ''youtube_videos'') = Inr None"
    by (simp_all add: js_def)
  have plain: "\<not> structured (parsed_payload (Some (js ''plain text'')))"
    by (simp add: str_eval lex_eval parse_eval panel_eval)
  from parsed_payload_lists [of ?raw ?p "JStr (js ''c'')" "Some (JObj [(js ''a'', JNum (Finite 1 0))])" None]
    parsed_payload_lists [of \<open>Some (js ''plain text'')\<close>] p props plain
  show ?thesis by simp
qed

section \<open>The connection-details fetch\<close>

text \<open>
  C9.  When the request fails, whatever the cause, or the response has a status outside
  200 to 299, whatever its body, \<open>fetchConnectionDetails\<close> throws an error whose message is
  the fixed text \<open>Error fetching connection details!\<close>: the cause is not passed on.  On a
  response with a status from 200 to 299 whose body is JSON it returns the parsed value.
  (A body that is not JSON makes \<open>res.json()\<close> throw inside the same \<open>try\<close>, with the
  same generic error.)
\<close>

theorem fetchConnectionDetails_outcomes:
  "fetchConnectionDetails (Rejected cause) = Inl (Error generic_message)
   \<and> (\<not> response_ok status
      \<longrightarrow> fetchConnectionDetails (Responded status body) = Inl (Error generic_message))
   \<and> (response_ok status \<and> JSON_parse body = Inr details
      \<longrightarrow> fetchConnectionDetails (Responded status body) = Inr details)
   \<and> (response_ok status \<and> JSON_parse body = Inl e
      \<longrightarrow> fetchConnectionDetails (Responded status body) = Inl (Error generic_message))
   \<and> generic_message = js ''Error fetching connection details!''"
  by (simp add: fetchConnectionDetails_def connection_try_def generic_message_def)

theorem fetchConnectionDetails_outcomes_witness:
  \<open>\<not> response_ok 500
   \<and> fetchConnectionDetails (Responded 500 (js ''Internal Server Error''))
       = Inl (Error (js ''Error fetching connection details!''))
   \<and> response_ok 200
   \<and> JSON_parse (js ''{"serverUrl":"wss://x","roomName":"r"}'')
       = Inr (JObj [(js ''serverUrl'', JStr (js ''wss://x'')), (js ''roomName'', JStr (js ''r''))])
   \<and> fetchConnectionDetails (Responded 200 (js ''{"serverUrl":"wss://x","roomName":"r"}''))
       = Inr (JObj [(js ''serverUrl'', JStr (js ''wss://x'')), (js ''roomName'', JStr (js ''r''))])
   \<and> JSON_parse (js ''<html>'') = Inl SyntaxError
   \<and> fetchConnectionDetails (Responded 200 (js ''<html>''))
       = Inl (Error (js ''Error fetching connection details!''))\<close>
proof -
  have ok: "\<not> response_ok 500" "response_ok 200"
    by (simp_all add: response_ok_def)
  have p: \<open>JSON_parse (js ''{"serverUrl":"wss://x","roomName":"r"}'')
       = Inr (JObj [(js ''serverUrl'', JStr (js ''wss://x'')), (js ''roomName'', JStr (js ''r''))])\<close>
    by (simp add: str_eval lex_eval parse_eval)
  have q: \<open>JSON_parse (js ''<html>'') = Inl SyntaxError\<close>
    by (simp add: str_eval lex_eval parse_eval)
  from fetchConnectionDetails_outcomes [of "[]" 500 \<open>js ''Internal Server Error''\<close>]
    fetchConnectionDetails_outcomes [of "[]" 200 \<open>js ''{"serverUrl":"wss://x","roomName":"r"}''\<close>
      \<open>JObj [(js ''serverUrl'', JStr (js ''wss://x'')), (js ''roomName'', JStr (js ''r''))]\<close>]
    fetchConnectionDetails_outcomes [of "[]" 200 \<open>js ''<html>''\<close> _ SyntaxError]
    ok p q
  show ?thesis by simp
qed


section \<open>The diagnostic-data fetch\<close>

text \<open>
  The outcome is a successful response that carries the truthy \<open>data\<close> field \<open>d\<close>: the
  status is from 200 to 299, the body is JSON, and its \<open>data\<close> field is there and is not
  \<open>null\<close>, \<open>false\<close>, zero or the empty string.
\<close>

definition carries_data :: "fetch_outcome \<Rightarrow> json \<Rightarrow> bool" where
  "carries_data outcome d =
     (case outcome of
        Rejected cause \<Rightarrow> False
      | Responded status body \<Rightarrow>
          response_ok status
          \<and> (case JSON_parse body of
                Inl e \<Rightarrow> False
              | Inr result \<Rightarrow> get_prop result (js ''data'') = Inr (Some d) \<and> truthy d))"

lemma fetchDiagnosticData_replaces:
  "carries_data outcome d \<Longrightarrow> fetchDiagnosticData outcome held = (JSON_stringify d, True)"
  by (auto simp: carries_data_def fetchDiagnosticData_def fetch_diagnostic_try_def
      split: fetch_outcome.splits sum.splits)

lemma fetchDiagnosticData_keeps:
  "\<forall>d. \<not> carries_data outcome d \<Longrightarrow> fetchDiagnosticData outcome held = (held, False)"
  by (auto simp: carries_data_def fetchDiagnosticData_def fetch_diagnostic_try_def
      split: fetch_outcome.splits sum.splits option.splits)

text \<open>
  C4, as the code has it.  \<open>fetchDiagnosticData\<close> replaces the held \<open>diagnosticData\<close> by
  the serialization of \<open>data\<close> when the response is successful and its \<open>data\<close> field is
  truthy (the test is \<open>if (result.data)\<close>: an empty object or an empty array passes it),
  and leaves it exactly as it was in every other case: a rejected request, a status
  outside 200 to 299, a body that is not JSON, a \<open>data\<close> field that is absent, \<open>null\<close>,
  \<open>false\<close>, zero or the empty string.  No exception leaves the function.
\<close>

theorem fetchDiagnosticData_outcomes:
  "(carries_data outcome d \<longrightarrow> fetchDiagnosticData outcome held = (JSON_stringify d, True))
   \<and> ((\<forall>d'. \<not> carries_data outcome d') \<longrightarrow> fetchDiagnosticData outcome held = (held, False))
   \<and> fetchDiagnosticData (Rejected cause) held = (held, False)
   \<and> (\<not> response_ok status \<longrightarrow> fetchDiagnosticData (Responded status body) held = (held, False))
   \<and> (JSON_parse body = Inr result \<and> get_prop result (js ''data'') = Inr None
      \<longrightarrow> fetchDiagnosticData (Responded status body) held = (held, False))
   \<and> (JSON_parse body = Inr result \<and> get_prop result (js ''data'') = Inr (Some d') \<and> \<not> truthy d'
      \<longrightarrow> fetchDiagnosticData (Responded status body) held = (held, False))"
proof -
  have a: "fetchDiagnosticData (Rejected cause) held = (held, False)"
    by (rule fetchDiagnosticData_keeps) (simp add: carries_data_def)
  have b: "fetchDiagnosticData (Responded status body) held = (held, False)"
    if "\<not> response_ok status"
    by (rule fetchDiagnosticData_keeps) (simp add: carries_data_def that)
  have c: "fetchDiagnosticData (Responded status body) held = (held, False)"
    if "JSON_parse body = Inr result \<and> get_prop result (js ''data'') = Inr None"
    by (rule fetchDiagnosticData_keeps) (simp add: carries_data_def that)
  have d: "fetchDiagnosticData (Responded status body) held = (held, False)"
    if "JSON_parse body = Inr result \<and> get_prop result (js ''data'') = Inr (Some d') \<and> \<not> truthy d'"
    by (rule fetchDiagnosticData_keeps) (use that in \<open>auto simp: carries_data_def\<close>)
  from a b c d fetchDiagnosticData_replaces [of outcome d held]
    fetchDiagnosticData_keeps [of outcome held]
  show ?thesis by blast
qed

theorem fetchDiagnosticData_outcomes_witness:
  \<open>carries_data (Responded 200 (js ''{"data":{"content":"c"}}'')) (JObj [(js ''content'', JStr (js ''c''))])
   \<and> fetchDiagnosticData (Responded 200 (js ''{"data":{"content":"c"}}'')) (js ''old'')
       = (js ''{"content":"c"}'', True)
   \<and> fetchDiagnosticData (Responded 503 (js ''{"data":{"content":"c"}}'')) (js ''old'') = (js ''old'', False)
   \<and> fetchDiagnosticData (Responded 200 (js ''{"data":null}'')) (js ''old'') = (js ''old'', False)
   \<and> fetchDiagnosticData (Responded 200 (js ''{}'')) (js ''old'') = (js ''old'', False)\<close>
proof -
  let ?body = \<open>js ''{"data":{"content":"c"}}''\<close>
  let ?d = \<open>JObj [(js ''content'', JStr (js ''c''))]\<close>
  have p: "JSON_parse ?body = Inr (JObj [(js ''data'', ?d)])"
    by (simp add: str_eval lex_eval parse_eval)
  have pn: \<open>JSON_parse (js ''{"data":null}'') = Inr (JObj [(js ''data'', JNull)])\<close>
    by (simp add: str_eval lex_eval parse_eval)
  have pe: \<open>JSON_parse (js ''{}'') = Inr (JObj [])\<close>
    by (simp add: str_eval lex_eval parse_eval)
  have c: "carries_data (Responded 200 ?body) ?d"
    by (simp add: carries_data_def p response_ok_def)
  have s: \<open>JSON_stringify ?d = js ''{"content":"c"}''\<close>
    by (simp add: str_eval ser_eval)
  have ok: "\<not> response_ok 503" by (simp add: response_ok_def)
  have gn: "get_prop (JObj [(js ''data'', JNull)]) (js ''data'') = Inr (Some JNull)" "\<not> truthy JNull"
    "get_prop (JObj []) (js ''data'') = Inr None"
    by simp_all
  from fetchDiagnosticData_outcomes [of "Responded 200 ?body" ?d \<open>js ''old''\<close> "[]" 503 ?body]
    fetchDiagnosticData_outcomes [of "Responded 200 ?body" ?d \<open>js ''old''\<close> "[]" 200
      \<open>js ''{"data":null}''\<close> "JObj [(js ''data'', JNull)]" JNull]
    fetchDiagnosticData_outcomes [of "Responded 200 ?body" ?d \<open>js ''old''\<close> "[]" 200
      \<open>js ''{}''\<close> "JObj []"]
    c s ok pn pe gn
  show ?thesis by simp
qed

text \<open>
  The claim as stated fails on a successful response whose \<open>data\<close> field is the empty
  object: the held payload is replaced by \<open>{}\<close>, which the panel then shows as its text.
\<close>

theorem fetchDiagnosticData_empty_data_counterexample:
  \<open>response_ok 200
   \<and> JSON_parse (js ''{"data":{}}'') = Inr (JObj [(js ''data'', JObj [])])
   \<and> fetchDiagnosticData (Responded 200 (js ''{"data":{}}'')) (js ''{"content":"last good"}'')
       = (js ''{}'', True)
   \<and> fst (fetchDiagnosticData (Responded 200 (js ''{"data":{}}'')) (js ''{"content":"last good"}''))
       \<noteq> js ''{"content":"last good"}''
   \<and> mainContent (parsed_payload (getLatestTextContent (js ''{}''))) = JStr (js ''{}'')\<close>
proof -
  have ok: "response_ok 200" by (simp add: response_ok_def)
  have p: \<open>JSON_parse (js ''{"data":{}}'') = Inr (JObj [(js ''data'', JObj [])])\<close>
    by (simp add: str_eval lex_eval parse_eval)
  have s: \<open>JSON_stringify (JObj []) = js ''{}''\<close>
    by (simp add: str_eval ser_eval)
  have f: \<open>fetchDiagnosticData (Responded 200 (js ''{"data":{}}'')) (js ''{"content":"last good"}'')
       = (js ''{}'', True)\<close>
    by (simp add: fetchDiagnosticData_def fetch_diagnostic_try_def ok p s)
  have ne: \<open>js ''{}'' \<noteq> js ''{"content":"last good"}''\<close> by (simp add: js_def)
  have e: \<open>JSON_parse (js ''{}'') = Inr (JObj [])\<close>
    by (simp add: str_eval lex_eval parse_eval)
  have g: \<open>getLatestTextContent (js ''{}'') = Some (js ''{}'')\<close>
    by (simp add: getLatestTextContent_def)
  have shown: \<open>mainContent (parsed_payload (Some (js ''{}''))) = JStr (js ''{}'')\<close>
    by (simp add: panel_eval JSON_parse_arg_def e)
  from ok p f ne g shown show ?thesis by simp
qed


section \<open>The display-text extractor\<close>

text \<open>
  Every group of a pattern that is opened and then closed takes part in every match:
  \<open>closes n ks as\<close> says that the atoms \<open>as\<close>, read with the groups \<open>ks\<close> open, close
  group \<open>n\<close>.
\<close>

fun closes :: "nat \<Rightarrow> nat list \<Rightarrow> atom list \<Rightarrow> bool" where
  "closes n ks [] = False"
| "closes n ks (Open k # as) = closes n (k # ks) as"
| "closes n ks (Close k # as) = ((k = n \<and> k \<in> set ks) \<or> closes n ks as)"
| "closes n ks (a # as) = closes n ks as"

lemma match_atoms_captures:
  "match_atoms ml as prev acc opens caps rest = Some (m, caps') \<Longrightarrow>
   map_of caps n \<noteq> None \<or> closes n (map fst opens) as \<Longrightarrow>
   map_of caps' n \<noteq> None"
proof (induction ml as prev acc opens caps rest rule: match_atoms.induct)
  case (1 ml prev acc opens caps rest)
  then show ?case by simp
next
  case (2 ml cc as prev acc opens caps)
  then show ?case by simp
next
  case (3 ml cc as prev acc opens caps c cs)
  then show ?case by (simp split: if_splits)
next
  case (4 ml cc as prev acc opens caps)
  then show ?case by simp
next
  case (5 ml cc as prev acc opens caps c cs)
  then show ?case by (simp split: if_splits)
next
  case (6 ml cc as prev acc opens caps)
  then show ?case by simp
next
  case (7 ml cc as prev acc opens caps c cs)
  then show ?case by (simp split: if_splits option.splits)
next
  case (8 ml cc as prev acc opens caps)
  then show ?case by simp
next
  case (9 ml cc as prev acc opens caps c cs)
  then show ?case by (simp split: if_splits option.splits)
next
  case (10 ml k as prev acc opens caps rest)
  then show ?case by simp
next
  case (11 ml k as prev acc opens caps rest)
  show ?case
  proof (rule "11.IH")
    from "11.prems"(1)
    show "match_atoms ml as prev acc opens (close_group k acc opens caps) rest = Some (m, caps')"
      by simp
    from "11.prems"(2)
    show "map_of (close_group k acc opens caps) n \<noteq> None \<or> closes n (map fst opens) as"
      by (auto simp: map_of_eq_None_iff image_iff split: option.splits)
  qed
next
  case (12 ml as prev acc opens caps rest)
  then show ?case by (simp split: if_splits)
next
  case (13 ml as prev acc opens caps rest)
  then show ?case by (simp split: if_splits)
qed

lemma exec_from_captures:
  "exec_from r prev s = Some (m, caps) \<Longrightarrow> closes n [] (atoms r) \<Longrightarrow> map_of caps n \<noteq> None"
proof (induction s arbitrary: prev)
  case Nil
  then show ?case
    using match_atoms_captures [of "multiline r" "atoms r" prev "[]" "[]" "[]" "[]" m caps n]
    by (simp add: match_at_def)
next
  case (Cons c cs)
  show ?case
  proof (cases "match_at r prev (c # cs)")
    case None
    with Cons show ?thesis by simp
  next
    case (Some a)
    with Cons.prems(1) have "match_at r prev (c # cs) = Some (m, caps)" by simp
    with Cons.prems(2) show ?thesis
      using match_atoms_captures [of "multiline r" "atoms r" prev "[]" "[]" "[]" "c # cs" m caps n]
      by (simp add: match_at_def)
  qed
qed

lemma voice_re_group: "match_js s voice_re = Some (m, caps) \<Longrightarrow> \<exists>g. capture caps 1 = Some g"
proof -
  assume "match_js s voice_re = Some (m, caps)"
  then have "exec_from voice_re None s = Some (m, caps)" by (simp add: match_js_def)
  moreover have "closes 1 [] (atoms voice_re)" by (simp add: voice_re_def lits_def js_def)
  ultimately have "map_of caps 1 \<noteq> None" by (rule exec_from_captures)
  then show ?thesis by (auto simp: capture_def)
qed

lemma voice_pattern_returns: "\<exists>v. voice_pattern s = Inr (JStr v)"
proof (cases "match_js s voice_re")
  case None
  then show ?thesis by (simp add: voice_pattern_def)
next
  case (Some a)
  obtain m caps where a: "a = (m, caps)" by (cases a)
  from voice_re_group [of s m caps] Some a obtain g where "capture caps 1 = Some g" by auto
  with Some a show ?thesis by (simp add: voice_pattern_def)
qed

lemma display_text_cases:
  "(\<exists>v. voice_output_try s = Inr (Some v) \<and> display_text s = Inr v)
   \<or> ((\<forall>v. voice_output_try s \<noteq> Inr (Some v)) \<and> display_text s = voice_pattern s)"
  by (simp add: display_text_def split: sum.splits option.splits)

lemma display_text_local_eq: "display_text_local s = display_text s"
  by (simp add: display_text_local_def display_text_def split: sum.splits option.splits)

lemma voice_output_try_syntax_error: "JSON_parse s = Inl e \<Longrightarrow> voice_output_try s = Inl e"
  by (simp add: voice_output_try_def)

lemma voice_output_try_string:
  "JSON_parse s = Inr p \<Longrightarrow> get_prop p (js ''voice_output'') = Inr (Some (JStr v)) \<Longrightarrow> v \<noteq> [] \<Longrightarrow>
   voice_output_try s = Inr (Some (JStr v))"
  by (cases p) (simp_all add: voice_output_try_def)

text \<open>
  C8.  On a string that is not JSON and does not match the \<open>VOICE:...|||TEXT:...\<close>
  pattern the extractor returns the string itself; and on every string it returns a value:
  no exception leaves it.  The same holds for the copy in the local-parse variant.
\<close>

theorem display_text_identity:
  "(\<exists>v. display_text s = Inr v) \<and> (\<exists>v. display_text_local s = Inr v)
   \<and> (JSON_parse s = Inl e \<and> match_js s voice_re = None
      \<longrightarrow> display_text s = Inr (JStr s) \<and> display_text_local s = Inr (JStr s))"
proof -
  from display_text_cases [of s] voice_pattern_returns [of s]
  have total: "\<exists>v. display_text s = Inr v" by auto
  have ident: "display_text s = Inr (JStr s)" if "JSON_parse s = Inl e \<and> match_js s voice_re = None"
    using that by (simp add: display_text_def voice_output_try_syntax_error voice_pattern_def)
  from total ident show ?thesis by (simp add: display_text_local_eq)
qed

theorem display_text_identity_witness:
  "JSON_parse (js ''Hello, how can I help?'') = Inl SyntaxError
   \<and> match_js (js ''Hello, how can I help?'') voice_re = None
   \<and> display_text (js ''Hello, how can I help?'') = Inr (JStr (js ''Hello, how can I help?''))
   \<and> display_text_local (js ''Hello, how can I help?'') = Inr (JStr (js ''Hello, how can I help?''))"
proof -
  have p: "JSON_parse (js ''Hello, how can I help?'') = Inl SyntaxError"
    by (simp add: str_eval lex_eval parse_eval)
  have m: "match_js (js ''Hello, how can I help?'') voice_re = None"
    by (simp add: str_eval regex_eval voice_re_def)
  from display_text_identity [of \<open>js ''Hello, how can I help?''\<close> SyntaxError] p m
  show ?thesis by simp
qed

text \<open>
  C5, as the code has it.  On a string that is JSON with a \<^emph>\<open>non-empty\<close> string
  \<open>voice_output\<close> field the extractor returns exactly that string.  (The guard
  \<open>parsed && parsed.voice_output\<close> is a truthiness test: an empty \<open>voice_output\<close> fails it,
  and the raw text is displayed, as the counterexample shows.)
\<close>

theorem display_text_voice_output:
  "JSON_parse s = Inr p \<Longrightarrow> get_prop p (js ''voice_output'') = Inr (Some (JStr v)) \<Longrightarrow> v \<noteq> [] \<Longrightarrow>
   display_text s = Inr (JStr v) \<and> display_text_local s = Inr (JStr v)"
  by (simp add: display_text_local_eq display_text_def voice_output_try_string)

theorem display_text_voice_output_witness:
  \<open>JSON_parse (js ''{"voice_output":"Hi there","diagnostic_report":{"content":"X"}}'')
     = Inr (JObj [(js ''voice_output'', JStr (js ''Hi there'')),
                  (js ''diagnostic_report'', JObj [(js ''content'', JStr (js ''X''))])])
   \<and> display_text (js ''{"voice_output":"Hi there","diagnostic_report":{"content":"X"}}'')
     = Inr (JStr (js ''Hi there''))
   \<and> display_text_local (js ''{"voice_output":"Hi there","diagnostic_report":{"content":"X"}}'')
     = Inr (JStr (js ''Hi there''))\<close>
proof -
  let ?s = \<open>js ''{"voice_output":"Hi there","diagnostic_report":{"content":"X"}}''\<close>
  let ?p = \<open>JObj [(js ''voice_output'', JStr (js ''Hi there'')),
                  (js ''diagnostic_report'', JObj [(js ''content'', JStr (js ''X''))])]\<close>
  have p: "JSON_parse ?s = Inr ?p"
    by (simp add: str_eval lex_eval parse_eval)
  have g: "get_prop ?p (js ''voice_output'') = Inr (Some (JStr (js ''Hi there'')))"
    by simp
  have n: "js ''Hi there'' \<noteq> []" by (simp add: js_def)
  from display_text_voice_output [OF p g n] p show ?thesis by simp
qed

theorem display_text_empty_voice_output_counterexample:
  \<open>JSON_parse (js ''{"voice_output":""}'') = Inr (JObj [(js ''voice_output'', JStr [])])
   \<and> get_prop (JObj [(js ''voice_output'', JStr [])]) (js ''voice_output'') = Inr (Some (JStr []))
   \<and> display_text (js ''{"voice_output":""}'') = Inr (JStr (js ''{"voice_output":""}''))
   \<and> display_text (js ''{"voice_output":""}'') \<noteq> Inr (JStr [])
   \<and> display_text_local (js ''{"voice_output":""}'') \<noteq> Inr (JStr [])\<close>
proof -
  have p: \<open>JSON_parse (js ''{"voice_output":""}'') = Inr (JObj [(js ''voice_output'', JStr [])])\<close>
    by (simp add: str_eval lex_eval parse_eval)
  have m: \<open>match_js (js ''{"voice_output":""}'') voice_re = None\<close>
    by (simp add: str_eval regex_eval voice_re_def)
  have d: \<open>display_text (js ''{"voice_output":""}'') = Inr (JStr (js ''{"voice_output":""}''))\<close>
    by (simp add: display_text_def voice_output_try_def voice_pattern_def p m)
  have ne: \<open>js ''{"voice_output":""}'' \<noteq> []\<close> by (simp add: js_def)
  from p d ne show ?thesis by (simp add: display_text_local_eq)
qed

section \<open>The local-parse resolver and the panel\<close>

lemma filter_last_assistant:
  "is_assistant m \<Longrightarrow> list_all (\<lambda>x. \<not> is_assistant x) later \<Longrightarrow>
   filter is_assistant (earlier @ [m] @ later) = filter is_assistant earlier @ [m]"
  by (simp add: list_all_iff)

lemma getLatestTextContent_local_last:
  "is_assistant m \<Longrightarrow> message m = JStr raw \<Longrightarrow> list_all (\<lambda>x. \<not> is_assistant x) later \<Longrightarrow>
   getLatestTextContent_local (earlier @ [m] @ later) = latest_of_raw raw"
  using filter_last_assistant [of m later earlier]
  by (simp add: getLatestTextContent_local_def Let_def)

definition report_message :: jsstring where
  \<open>report_message =
     js ''{"diagnostic_report":{"content":"X","web_sources":[{"title":"T","url":"U"}]}}''\<close>

definition voice_text_message :: jsstring where
  \<open>voice_text_message = js ''VOICE:Hi there|||TEXT:{"content":"Detail"}''\<close>

lemma latest_of_report_message:
  \<open>latest_of_raw report_message
     = Some (js ''{"content":"X","web_sources":[{"title":"T","url":"U"}]}'')\<close>
  by (simp add: report_message_def str_eval lex_eval parse_eval ser_eval local_eval)

lemma payload_of_report:
  \<open>parsed_payload (Some (js ''{"content":"X","web_sources":[{"title":"T","url":"U"}]}''))
     = \<lparr>mainContent = JStr (js ''X''),
        webSources = JArr [JObj [(js ''title'', JStr (js ''T'')), (js ''url'', JStr (js ''U''))]],
        youtubeVideos = JArr [], structured = True\<rparr>\<close>
  by (simp add: str_eval lex_eval parse_eval panel_eval)

lemma voice_text_message_not_json: "JSON_parse voice_text_message = Inl SyntaxError"
  by (simp add: voice_text_message_def str_eval lex_eval parse_eval)

lemma voice_text_message_segment:
  \<open>\<exists>m caps. match_js voice_text_message voice_text_re = Some (m, caps)
      \<and> capture caps 2 = Some (js ''{"content":"Detail"}'')\<close>
  by (simp add: voice_text_message_def str_eval regex_eval voice_text_re_def)

lemma segment_is_json:
  \<open>text_segment_try (Some (js ''{"content":"Detail"}'')) = Inr (Some (js ''{"content":"Detail"}''))\<close>
  by (simp add: str_eval lex_eval parse_eval ser_eval text_segment_try_def report_in_def)

lemma latest_of_voice_text_message:
  \<open>latest_of_raw voice_text_message = Some (js ''{"content":"Detail"}'')\<close>
proof -
  from voice_text_message_segment obtain m caps where
    m: "match_js voice_text_message voice_text_re = Some (m, caps)" and
    c: \<open>capture caps 2 = Some (js ''{"content":"Detail"}'')\<close>
    by blast
  show ?thesis
    by (simp add: latest_of_raw_def diagnostic_report_try_def text_output_try_def
        voice_text_message_not_json m c segment_is_json)
qed

lemma payload_of_detail:
  \<open>parsed_payload (Some (js ''{"content":"Detail"}''))
     = \<lparr>mainContent = JStr (js ''Detail''), webSources = JArr [], youtubeVideos = JArr [],
        structured = True\<rparr>\<close>
  by (simp add: str_eval lex_eval parse_eval panel_eval)

text \<open>
  C6.  When the last assistant message (any messages before it, only the user's own
  after it) is
  \<open>{"diagnostic_report":{"content":"X","web_sources":[{"title":"T","url":"U"}]}}\<close>,
  the local-parse resolver returns the serialized report and the panel's parser gives
  \<open>mainContent\<close> \<open>X\<close> and \<open>webSources\<close> the one-element list with title \<open>T\<close> and url \<open>U\<close>.
\<close>

theorem diagnostic_report_resolved:
  assumes "is_assistant m" and "message m = JStr report_message"
    and "list_all (\<lambda>x. \<not> is_assistant x) later"
  shows \<open>getLatestTextContent_local (earlier @ [m] @ later)
           = Some (js ''{"content":"X","web_sources":[{"title":"T","url":"U"}]}'')
         \<and> mainContent (panel_local (earlier @ [m] @ later)) = JStr (js ''X'')
         \<and> webSources (panel_local (earlier @ [m] @ later))
           = JArr [JObj [(js ''title'', JStr (js ''T'')), (js ''url'', JStr (js ''U''))]]\<close>
  using getLatestTextContent_local_last [OF assms, of earlier]
  by (simp add: panel_local_def latest_of_report_message payload_of_report)

theorem diagnostic_report_resolved_witness:
  \<open>is_assistant \<lparr>msg_id = js ''m2'', from_isLocal = Some False, message = JStr report_message\<rparr>
   \<and> mainContent (panel_local
        [\<lparr>msg_id = js ''m1'', from_isLocal = Some True, message = JStr (js ''my wifi is down'')\<rparr>,
         \<lparr>msg_id = js ''m2'', from_isLocal = Some False, message = JStr report_message\<rparr>])
       = JStr (js ''X'')
   \<and> webSources (panel_local
        [\<lparr>msg_id = js ''m1'', from_isLocal = Some True, message = JStr (js ''my wifi is down'')\<rparr>,
         \<lparr>msg_id = js ''m2'', from_isLocal = Some False, message = JStr report_message\<rparr>])
       = JArr [JObj [(js ''title'', JStr (js ''T'')), (js ''url'', JStr (js ''U''))]]\<close>
proof -
  let ?m = \<open>\<lparr>msg_id = js ''m2'', from_isLocal = Some False, message = JStr report_message\<rparr>\<close>
  have a: "is_assistant ?m" by (simp add: is_assistant_def)
  have b: "message ?m = JStr report_message" by simp
  have c: "list_all (\<lambda>x. \<not> is_assistant x) []" by simp
  from diagnostic_report_resolved [OF a b c,
      of \<open>[\<lparr>msg_id = js ''m1'', from_isLocal = Some True, message = JStr (js ''my wifi is down'')\<rparr>]\<close>] a
  show ?thesis by simp
qed

text \<open>
  The text \<open>raw\<close> matches the \<open>VOICE:...|||TEXT:...\<close> pattern with the TEXT segment
  \<open>seg\<close>; and the local-parse resolver on a single assistant message with the text \<open>raw\<close>.
\<close>

definition text_segment_of :: "jsstring \<Rightarrow> jsstring \<Rightarrow> bool" where
  "text_segment_of raw seg =
     (case match_js raw voice_text_re of
        Some (mt, caps) \<Rightarrow> capture caps 2 = Some seg
      | None \<Rightarrow> False)"

definition resolve :: "jsstring \<Rightarrow> jsstring option" where
  "resolve raw =
     getLatestTextContent_local [\<lparr>msg_id = [], from_isLocal = None, message = JStr raw\<rparr>]"

definition spaced_message :: jsstring where
  \<open>spaced_message = js ''VOICE:Hi there|||TEXT: { "content" : "Detail" } ''\<close>

lemma resolve_latest: "resolve raw = latest_of_raw raw"
  by (simp add: resolve_def getLatestTextContent_local_def is_assistant_def)

lemma exec_from_anchored:
  "atoms r = Bol # as \<Longrightarrow> \<not> multiline r \<Longrightarrow> exec_from r (Some p) s = None"
  by (induction s arbitrary: p) (simp_all add: match_at_def)

lemma voice_text_match_starts:
  assumes "match_js raw voice_text_re = Some x"
  shows "\<exists>cs. raw = 0x56 # cs"
proof (cases raw)
  case Nil
  with assms show ?thesis
    by (simp add: match_js_def match_at_def voice_text_re_def lits_def js_def)
next
  case (Cons c cs)
  have later: "exec_from voice_text_re (Some c) cs = None"
    by (rule exec_from_anchored) (simp_all add: voice_text_re_def)
  show ?thesis
  proof (cases "c = 0x56")
    case True
    with Cons show ?thesis by simp
  next
    case False
    then have "match_at voice_text_re None (c # cs) = None"
      by (simp add: match_at_def voice_text_re_def lits_def js_def)
    with assms Cons later show ?thesis by (simp add: match_js_def)
  qed
qed

lemma voice_text_not_json:
  assumes "match_js raw voice_text_re = Some x"
  shows "JSON_parse raw = Inl SyntaxError"
proof -
  from voice_text_match_starts [OF assms] obtain cs where "raw = 0x56 # cs" by blast
  moreover have "lex (0x56 # cs) = None"
    by (simp add: is_json_ws_def is_digit_def js_def)
  ultimately show ?thesis by (simp add: JSON_parse_def)
qed

lemma get_prop_truthy: "truthy v \<Longrightarrow> \<exists>x. get_prop v k = Inr x"
  by (cases v) simp_all

lemma get_prop_some_truthy: "get_prop v k = Inr (Some x) \<Longrightarrow> truthy v"
  by (cases v) simp_all

lemma latest_of_raw_voice_text:
  assumes "text_segment_of raw seg"
  shows "latest_of_raw raw =
    (case text_segment_try (Some seg) of
       Inr (Some r) \<Rightarrow> Some r
     | Inr None \<Rightarrow> Some []
     | Inl e \<Rightarrow> Some seg)"
proof -
  from assms obtain mt caps where m: "match_js raw voice_text_re = Some (mt, caps)"
    and c: "capture caps 2 = Some seg"
    by (auto simp: text_segment_of_def split: option.splits)
  from voice_text_not_json [OF m] show ?thesis
    by (simp add: latest_of_raw_def diagnostic_report_try_def text_output_try_def m c
        split: sum.splits option.splits)
qed

lemma segment_not_json:
  "text_segment_of raw seg \<Longrightarrow> JSON_parse seg = Inl e \<Longrightarrow> latest_of_raw raw = Some seg"
  by (simp add: latest_of_raw_voice_text text_segment_try_def JSON_parse_arg_def)

lemma segment_report:
  "text_segment_of raw seg \<Longrightarrow> JSON_parse seg = Inr p \<Longrightarrow>
   report_in p (js ''diagnostic_report'') = Inr (Some r) \<Longrightarrow> latest_of_raw raw = Some r"
  by (simp add: latest_of_raw_voice_text text_segment_try_def JSON_parse_arg_def)

lemma segment_content:
  "text_segment_of raw seg \<Longrightarrow> JSON_parse seg = Inr p \<Longrightarrow>
   report_in p (js ''diagnostic_report'') = Inr None \<Longrightarrow>
   get_prop p (js ''content'') = Inr (Some (JStr c)) \<Longrightarrow>
   latest_of_raw raw = Some (JSON_stringify p)"
  using get_prop_some_truthy [of p "js ''content''" "JStr c"]
  by (simp add: latest_of_raw_voice_text text_segment_try_def JSON_parse_arg_def)

lemma segment_other:
  "text_segment_of raw seg \<Longrightarrow> JSON_parse seg = Inr p \<Longrightarrow>
   report_in p (js ''diagnostic_report'') = Inr None \<Longrightarrow>
   get_prop p (js ''content'') = Inr cv \<Longrightarrow> \<not> is_string cv \<Longrightarrow>
   latest_of_raw raw = Some []"
  by (simp add: latest_of_raw_voice_text text_segment_try_def JSON_parse_arg_def)

lemma spaced_message_segment:
  \<open>text_segment_of spaced_message (js '' { "content" : "Detail" } '')\<close>
  by (simp add: text_segment_of_def spaced_message_def str_eval regex_eval voice_text_re_def)

lemma spaced_segment_parsed:
  \<open>JSON_parse (js '' { "content" : "Detail" } '') = Inr (JObj [(js ''content'', JStr (js ''Detail''))])\<close>
  by (simp add: str_eval lex_eval parse_eval)

lemma detail_report_none:
  "report_in (JObj [(js ''content'', JStr (js ''Detail''))]) (js ''diagnostic_report'') = Inr None"
  by (simp add: report_in_def js_def)

lemma detail_serialized:
  \<open>JSON_stringify (JObj [(js ''content'', JStr (js ''Detail''))]) = js ''{"content":"Detail"}''\<close>
  by (simp add: str_eval ser_eval)

lemma spaced_differs: \<open>js ''{"content":"Detail"}'' \<noteq> js '' { "content" : "Detail" } ''\<close>
  by (simp add: js_def)

text \<open>
  C7.  When the last assistant message is \<open>VOICE:Hi there|||TEXT:{"content":"Detail"}\<close>,
  the resolver returns \<open>{"content":"Detail"}\<close> and the panel's parser gives \<open>mainContent\<close>
  \<open>Detail\<close>.  The JSON reading of the TEXT segment has priority over the plain text, for
  every message that matches the pattern: when the segment is JSON, the resolver returns
  the serialization of its \<open>diagnostic_report\<close> (if that has a string \<open>content\<close>) or else of the
  parsed segment (if that has a string \<open>content\<close>), or else the empty string; it returns
  the segment itself only when the segment is not JSON.  On
  \<open>VOICE:Hi there|||TEXT: { "content" : "Detail" } \<close> the two readings differ, and the
  resolver returns the serialization \<open>{"content":"Detail"}\<close>, not the segment.
\<close>

theorem voice_text_resolved:
  assumes "is_assistant m" and "message m = JStr voice_text_message"
    and "list_all (\<lambda>x. \<not> is_assistant x) later"
  shows \<open>text_segment_try (Some (js ''{"content":"Detail"}''))
           = Inr (Some (js ''{"content":"Detail"}''))
         \<and> getLatestTextContent_local (earlier @ [m] @ later) = Some (js ''{"content":"Detail"}'')
         \<and> mainContent (panel_local (earlier @ [m] @ later)) = JStr (js ''Detail'')
         \<and> (text_segment_of raw seg \<and> JSON_parse seg = Inr p
              \<and> report_in p (js ''diagnostic_report'') = Inr None
              \<and> get_prop p (js ''content'') = Inr (Some (JStr c))
            \<longrightarrow> resolve raw = Some (JSON_stringify p))
         \<and> (text_segment_of raw seg \<and> JSON_parse seg = Inr p
              \<and> report_in p (js ''diagnostic_report'') = Inr (Some r)
            \<longrightarrow> resolve raw = Some r)
         \<and> (text_segment_of raw seg \<and> JSON_parse seg = Inr p
              \<and> report_in p (js ''diagnostic_report'') = Inr None
              \<and> get_prop p (js ''content'') = Inr cv \<and> \<not> is_string cv
            \<longrightarrow> resolve raw = Some [])
         \<and> (text_segment_of raw seg \<and> JSON_parse seg = Inl e \<longrightarrow> resolve raw = Some seg)
         \<and> text_segment_of spaced_message (js '' { "content" : "Detail" } '')
         \<and> resolve spaced_message = Some (js ''{"content":"Detail"}'')
         \<and> resolve spaced_message \<noteq> Some (js '' { "content" : "Detail" } '')\<close>
proof -
  have claim: \<open>text_segment_try (Some (js ''{"content":"Detail"}''))
           = Inr (Some (js ''{"content":"Detail"}''))
         \<and> getLatestTextContent_local (earlier @ [m] @ later) = Some (js ''{"content":"Detail"}'')
         \<and> mainContent (panel_local (earlier @ [m] @ later)) = JStr (js ''Detail'')\<close>
    using getLatestTextContent_local_last [OF assms, of earlier]
    by (simp add: panel_local_def latest_of_voice_text_message payload_of_detail segment_is_json)
  have json: "resolve raw = Some (JSON_stringify p)"
    if "text_segment_of raw seg \<and> JSON_parse seg = Inr p
              \<and> report_in p (js ''diagnostic_report'') = Inr None
              \<and> get_prop p (js ''content'') = Inr (Some (JStr c))"
    using that segment_content [of raw seg p c] by (simp add: resolve_latest)
  have report: "resolve raw = Some r"
    if "text_segment_of raw seg \<and> JSON_parse seg = Inr p
              \<and> report_in p (js ''diagnostic_report'') = Inr (Some r)"
    using that segment_report [of raw seg p r] by (simp add: resolve_latest)
  have other: "resolve raw = Some []"
    if "text_segment_of raw seg \<and> JSON_parse seg = Inr p
              \<and> report_in p (js ''diagnostic_report'') = Inr None
              \<and> get_prop p (js ''content'') = Inr cv \<and> \<not> is_string cv"
    using that segment_other [of raw seg p cv] by (simp add: resolve_latest)
  have plain: "resolve raw = Some seg" if "text_segment_of raw seg \<and> JSON_parse seg = Inl e"
    using that segment_not_json [of raw seg e] by (simp add: resolve_latest)
  have spaced: \<open>resolve spaced_message = Some (js ''{"content":"Detail"}'')\<close>
    using segment_content [OF spaced_message_segment spaced_segment_parsed detail_report_none]
    by (simp add: resolve_latest detail_serialized)
  from claim json report other plain spaced spaced_message_segment spaced_differs
  show ?thesis by simp
qed

theorem voice_text_resolved_witness:
  \<open>is_assistant \<lparr>msg_id = js ''m1'', from_isLocal = None, message = JStr voice_text_message\<rparr>
   \<and> \<not> is_assistant \<lparr>msg_id = js ''m2'', from_isLocal = Some True, message = JStr (js ''thanks'')\<rparr>
   \<and> mainContent (panel_local
        [\<lparr>msg_id = js ''m1'', from_isLocal = None, message = JStr voice_text_message\<rparr>,
         \<lparr>msg_id = js ''m2'', from_isLocal = Some True, message = JStr (js ''thanks'')\<rparr>])
       = JStr (js ''Detail'')
   \<and> text_segment_of (js ''VOICE:ok|||TEXT:{"content": "D", "n": 1}'') (js ''{"content": "D", "n": 1}'')
   \<and> resolve (js ''VOICE:ok|||TEXT:{"content": "D", "n": 1}'') = Some (js ''{"content":"D","n":1}'')
   \<and> text_segment_of (js ''VOICE:ok|||TEXT:{"diagnostic_report":{"content":"R"},"content":"D"}'')
        (js ''{"diagnostic_report":{"content":"R"},"content":"D"}'')
   \<and> resolve (js ''VOICE:ok|||TEXT:{"diagnostic_report":{"content":"R"},"content":"D"}'')
       = Some (js ''{"content":"R"}'')
   \<and> text_segment_of (js ''VOICE:ok|||TEXT:[1, 2]'') (js ''[1, 2]'')
   \<and> resolve (js ''VOICE:ok|||TEXT:[1, 2]'') = Some []
   \<and> text_segment_of (js ''VOICE:ok|||TEXT:restart the router'') (js ''restart the router'')
   \<and> JSON_parse (js ''restart the router'') = Inl SyntaxError
   \<and> resolve (js ''VOICE:ok|||TEXT:restart the router'') = Some (js ''restart the router'')\<close>
proof -
  let ?m = \<open>\<lparr>msg_id = js ''m1'', from_isLocal = None, message = JStr voice_text_message\<rparr>\<close>
  let ?u = \<open>\<lparr>msg_id = js ''m2'', from_isLocal = Some True, message = JStr (js ''thanks'')\<rparr>\<close>
  let ?p1 = \<open>JObj [(js ''content'', JStr (js ''D'')), (js ''n'', JNum (Finite 1 0))]\<close>
  let ?p2 = \<open>JObj [(js ''diagnostic_report'', JObj [(js ''content'', JStr (js ''R''))]),
                   (js ''content'', JStr (js ''D''))]\<close>
  let ?p3 = \<open>JArr [JNum (Finite 1 0), JNum (Finite 1 1)]\<close>
  have a: "is_assistant ?m" by (simp add: is_assistant_def)
  have b: "message ?m = JStr voice_text_message" by simp
  have u: "\<not> is_assistant ?u" by (simp add: is_assistant_def)
  then have c: "list_all (\<lambda>x. \<not> is_assistant x) [?u]" by simp
  note vt = voice_text_resolved [OF a b c, of "[]"]
  have s1: \<open>text_segment_of (js ''VOICE:ok|||TEXT:{"content": "D", "n": 1}'') (js ''{"content": "D", "n": 1}'')\<close>
    by (simp add: text_segment_of_def str_eval regex_eval voice_text_re_def)
  have j1: \<open>JSON_parse (js ''{"content": "D", "n": 1}'') = Inr ?p1\<close> by code_simp
  have r1: "report_in ?p1 (js ''diagnostic_report'') = Inr None" by (simp add: report_in_def js_def)
  have g1: "get_prop ?p1 (js ''content'') = Inr (Some (JStr (js ''D'')))" by simp
  have o1: \<open>JSON_stringify ?p1 = js ''{"content":"D","n":1}''\<close> by code_simp
  have s2: \<open>text_segment_of (js ''VOICE:ok|||TEXT:{"diagnostic_report":{"content":"R"},"content":"D"}'')
        (js ''{"diagnostic_report":{"content":"R"},"content":"D"}'')\<close>
    by (simp add: text_segment_of_def str_eval regex_eval voice_text_re_def)
  have j2: \<open>JSON_parse (js ''{"diagnostic_report":{"content":"R"},"content":"D"}'') = Inr ?p2\<close>
    by (simp add: str_eval lex_eval parse_eval)
  have r2: \<open>report_in ?p2 (js ''diagnostic_report'') = Inr (Some (js ''{"content":"R"}''))\<close>
    by (simp add: report_in_def str_eval ser_eval)
  have s3: \<open>text_segment_of (js ''VOICE:ok|||TEXT:[1, 2]'') (js ''[1, 2]'')\<close>
    by (simp add: text_segment_of_def str_eval regex_eval voice_text_re_def)
  have j3: \<open>JSON_parse (js ''[1, 2]'') = Inr ?p3\<close> by code_simp
  have r3: "report_in ?p3 (js ''diagnostic_report'') = Inr None" by (simp add: report_in_def)
  have g3: "get_prop ?p3 (js ''content'') = Inr None" "\<not> is_string None" by simp_all
  have s4: \<open>text_segment_of (js ''VOICE:ok|||TEXT:restart the router'') (js ''restart the router'')\<close>
    by (simp add: text_segment_of_def str_eval regex_eval voice_text_re_def)
  have j4: \<open>JSON_parse (js ''restart the router'') = Inl SyntaxError\<close>
    by (simp add: str_eval lex_eval parse_eval)
  from vt [of \<open>js ''VOICE:ok|||TEXT:{"content": "D", "n": 1}''\<close> \<open>js ''{"content": "D", "n": 1}''\<close>
      ?p1 \<open>js ''D''\<close>] s1 j1 r1 g1 o1
  have w1: \<open>resolve (js ''VOICE:ok|||TEXT:{"content": "D", "n": 1}'') = Some (js ''{"content":"D","n":1}'')\<close>
    by simp
  from vt [of \<open>js ''VOICE:ok|||TEXT:{"diagnostic_report":{"content":"R"},"content":"D"}''\<close>
      \<open>js ''{"diagnostic_report":{"content":"R"},"content":"D"}''\<close> ?p2 _ \<open>js ''{"content":"R"}''\<close>]
    s2 j2 r2
  have w2: \<open>resolve (js ''VOICE:ok|||TEXT:{"diagnostic_report":{"content":"R"},"content":"D"}'')
       = Some (js ''{"content":"R"}'')\<close>
    by simp
  from vt [of \<open>js ''VOICE:ok|||TEXT:[1, 2]''\<close> \<open>js ''[1, 2]''\<close> ?p3 _ _ None] s3 j3 r3 g3
  have w3: \<open>resolve (js ''VOICE:ok|||TEXT:[1, 2]'') = Some []\<close>
    by simp
  from vt [of \<open>js ''VOICE:ok|||TEXT:restart the router''\<close> \<open>js ''restart the router''\<close>
      _ _ _ _ SyntaxError] s4 j4
  have w4: \<open>resolve (js ''VOICE:ok|||TEXT:restart the router'') = Some (js ''restart the router'')\<close>
    by simp
  from vt a u s1 w1 s2 w2 s3 w3 s4 j4 w4 show ?thesis by simp
qed

text \<open>
  C2, on the code.  After the assistant message \<open>{"diagnostic_report":{"content":"X"}}\<close>
  the panel of the local-parse variant shows \<open>X\<close>.  When the next assistant message is
  \<open>hello\<close>, which fails every parse rule, the resolver returns the empty string, as the
  claim says; but the panel computes its payload from that string alone and shows an empty
  \<open>mainContent\<close>: the content shown before is gone.
\<close>

theorem panel_local_cleared:
  \<open>mainContent (panel_local
      [\<lparr>msg_id = js ''m1'', from_isLocal = Some False,
        message = JStr (js ''{"diagnostic_report":{"content":"X"}}'')\<rparr>])
     = JStr (js ''X'')
   \<and> getLatestTextContent_local
      [\<lparr>msg_id = js ''m1'', from_isLocal = Some False,
        message = JStr (js ''{"diagnostic_report":{"content":"X"}}'')\<rparr>,
       \<lparr>msg_id = js ''m2'', from_isLocal = Some False, message = JStr (js ''hello'')\<rparr>]
     = Some []
   \<and> mainContent (panel_local
      [\<lparr>msg_id = js ''m1'', from_isLocal = Some False,
        message = JStr (js ''{"diagnostic_report":{"content":"X"}}'')\<rparr>,
       \<lparr>msg_id = js ''m2'', from_isLocal = Some False, message = JStr (js ''hello'')\<rparr>])
     = JStr []\<close>
proof -
  have one: \<open>latest_of_raw (js ''{"diagnostic_report":{"content":"X"}}'') = Some (js ''{"content":"X"}'')\<close>
    by (simp add: str_eval lex_eval parse_eval ser_eval local_eval)
  have shown: \<open>parsed_payload (Some (js ''{"content":"X"}''))
     = \<lparr>mainContent = JStr (js ''X''), webSources = JArr [], youtubeVideos = JArr [],
        structured = True\<rparr>\<close>
    by (simp add: str_eval lex_eval parse_eval panel_eval)
  have two: \<open>latest_of_raw (js ''hello'') = Some []\<close>
    by (simp add: str_eval regex_eval lex_eval parse_eval local_eval)
  have empty: \<open>parsed_payload (Some [])
     = \<lparr>mainContent = JStr [], webSources = JArr [], youtubeVideos = JArr [],
        structured = False\<rparr>\<close>
    by (simp add: lex_eval parse_eval panel_eval)
  show ?thesis
    by (simp add: panel_local_def getLatestTextContent_local_def is_assistant_def one two
        shown empty)
qed

section \<open>The formatter on the Category example\<close>

text \<open>
  The markup the templates produce for a captured text \<open>t\<close>: the styled header block, the
  highlighted callout and the styled bullet row.
\<close>

definition header_block :: "jsstring \<Rightarrow> jsstring" where
  "header_block t = expand 1 [] [(1, t)] header_tmpl"

definition callout_block :: "jsstring \<Rightarrow> jsstring" where
  "callout_block t = expand 1 [] [(1, t)] category_tmpl"

definition bullet_row :: "jsstring \<Rightarrow> jsstring" where
  "bullet_row t = expand 1 [] [(1, t)] bullet_tmpl"

definition category_example :: jsstring where
  "category_example =
     js ''**Category:** Network'' @ [NL, BULLET] @ js '' Check cable'' @ [NL, NL] @ js ''Next''"

lemmas format_eval = header_re_def header_tmpl_def category_re_def category_tmpl_def
  bullet_re_def bullet_tmpl_def para_re_def para_tmpl_def br_re_def br_tmpl_def
  header_block_def callout_block_def bullet_row_def category_example_def

text \<open>
  Evaluation does not look again into the text it has passed: the input and the result of
  a scan are lists of numerals.
\<close>

lemma match_atoms_cong:
  "ml = ml' \<Longrightarrow> as = as' \<Longrightarrow>
   match_atoms ml as prev acc opens caps rest = match_atoms ml' as' prev acc opens caps rest"
  by simp

lemma replace_from_cong:
  "r = r' \<Longrightarrow> k = k' \<Longrightarrow>
   replace_from r tmpl prev k s = replace_from r' tmpl prev k' s"
  by simp

lemma append_left_cong: "xs = xs' \<Longrightarrow> xs @ ys = xs' @ ys"
  by simp

lemma str_includes_cong: "str_includes s needle = str_includes s needle"
  by simp

lemma is_prefix_cong: "is_prefix p s = is_prefix p s"
  by simp

lemma str_includes_append: "str_includes (xs @ needle @ ys) needle"
proof (induction xs)
  case Nil
  have "is_prefix needle (needle @ ys)" by (induction needle) simp_all
  then show ?case by (cases "needle @ ys") (simp_all)
next
  case (Cons x xs)
  then show ?case by simp
qed

lemma category_example_formatted:
  \<open>formatMainContent category_example
     = header_block (js ''Category'') @ js '' Network<br>'' @ bullet_row (js ''Check cable'')
       @ para_tmpl @ js ''Next''\<close>
  by (simp add: formatMainContent_def format_eval str_eval regex_eval
      cong: match_atoms_cong replace_from_cong append_left_cong)

lemma category_example_no_callout_class:
  \<open>\<not> str_includes
       (header_block (js ''Category'') @ js '' Network<br>'' @ bullet_row (js ''Check cable'')
        @ para_tmpl @ js ''Next'')
       (js ''bg-blue-50'')\<close>
  apply (simp add: format_eval str_eval group_def capture_def del: str_includes.simps)
  apply (simp cong: str_includes_cong is_prefix_cong)
  done

lemma is_prefix_iff: "is_prefix p s = (\<exists>ys. s = p @ ys)"
  by (induction p s rule: is_prefix.induct) auto

lemma str_includes_iff: "str_includes s needle = (\<exists>xs ys. s = xs @ needle @ ys)"
proof (induction s)
  case Nil
  then show ?case by simp
next
  case (Cons c cs)
  show ?case
  proof
    assume "str_includes (c # cs) needle"
    then consider "is_prefix needle (c # cs)" | "str_includes cs needle" by auto
    then show "\<exists>xs ys. c # cs = xs @ needle @ ys"
    proof cases
      case 1
      then obtain ys where "c # cs = needle @ ys" by (auto simp: is_prefix_iff)
      then have "c # cs = [] @ needle @ ys" by simp
      then show ?thesis by blast
    next
      case 2
      with Cons obtain xs ys where "cs = xs @ needle @ ys" by blast
      then have "c # cs = (c # xs) @ needle @ ys" by simp
      then show ?thesis by blast
    qed
  next
    assume "\<exists>xs ys. c # cs = xs @ needle @ ys"
    then obtain xs ys where eq: "c # cs = xs @ needle @ ys" by blast
    show "str_includes (c # cs) needle"
    proof (cases xs)
      case Nil
      with eq have "is_prefix needle (c # cs)" by (auto simp: is_prefix_iff)
      then show ?thesis by simp
    next
      case (Cons x xs')
      with eq have "cs = xs' @ needle @ ys" by simp
      with Cons.IH show ?thesis by auto
    qed
  qed
qed

lemma str_includes_trans:
  "str_includes s b \<Longrightarrow> str_includes b n \<Longrightarrow> str_includes s n"
proof -
  assume "str_includes s b" and "str_includes b n"
  then obtain xs ys us vs where "s = xs @ b @ ys" and "b = us @ n @ vs"
    by (auto simp: str_includes_iff)
  then have "s = (xs @ us) @ n @ (vs @ ys)" by simp
  then show ?thesis unfolding str_includes_iff by blast
qed

lemma callout_block_class: \<open>str_includes (callout_block (js ''Network'')) (js ''bg-blue-50'')\<close>
  apply (simp add: format_eval str_eval group_def capture_def del: str_includes.simps)
  apply (simp cong: str_includes_cong is_prefix_cong)
  done

lemma category_example_no_callout_block:
  \<open>\<not> str_includes
       (header_block (js ''Category'') @ js '' Network<br>'' @ bullet_row (js ''Check cable'')
        @ para_tmpl @ js ''Next'')
       (callout_block (js ''Network''))\<close>
  using category_example_no_callout_class callout_block_class str_includes_trans by blast

text \<open>
  C1, on the code.  On \<open>**Category:** Network\n\<bullet> Check cable\n\nNext\<close> the formatter
  gives a styled bullet row for \<open>Check cable\<close> and a paragraph break before \<open>Next\<close>, as
  the claim says, but no callout: the first substitution has already turned
  \<open>**Category:**\<close> into a header block, so the pattern of the second substitution, which
  would produce the highlighted callout, finds nothing to match.
\<close>

theorem category_example_no_callout:
  \<open>formatMainContent category_example
     = header_block (js ''Category'') @ js '' Network<br>'' @ bullet_row (js ''Check cable'')
       @ para_tmpl @ js ''Next''
   \<and> \<not> str_includes (formatMainContent category_example) (callout_block (js ''Network''))
   \<and> \<not> str_includes (formatMainContent category_example) (js ''bg-blue-50'')
   \<and> str_includes (formatMainContent category_example) (bullet_row (js ''Check cable''))
   \<and> str_includes (formatMainContent category_example) (para_tmpl @ js ''Next'')\<close>
proof -
  have row: \<open>str_includes
       (header_block (js ''Category'') @ js '' Network<br>'' @ bullet_row (js ''Check cable'')
        @ para_tmpl @ js ''Next'')
       (bullet_row (js ''Check cable''))\<close>
    using str_includes_append [of \<open>header_block (js ''Category'') @ js '' Network<br>''\<close>
        \<open>bullet_row (js ''Check cable'')\<close> \<open>para_tmpl @ js ''Next''\<close>]
    by simp
  have break: \<open>str_includes
       (header_block (js ''Category'') @ js '' Network<br>'' @ bullet_row (js ''Check cable'')
        @ para_tmpl @ js ''Next'')
       (para_tmpl @ js ''Next'')\<close>
    using str_includes_append [of
        \<open>header_block (js ''Category'') @ js '' Network<br>'' @ bullet_row (js ''Check cable'')\<close>
        \<open>para_tmpl @ js ''Next''\<close> "[]"]
    by simp
  show ?thesis
    unfolding category_example_formatted
    using category_example_no_callout_class category_example_no_callout_block row break
    by blast
qed

section \<open>The session lifecycle guard (session-view.tsx)\<close>

text \<open>
  The guard is the effect with the dependencies \<open>[agentState, sessionStarted, room]\<close>.
  \<open>AgentState\<close> is a union of string literals from the LiveKit library; the code only
  compares it with literals, so it is a string here.  The room object does not change
  during a session and is left out of the dependencies.  Time is in milliseconds.
\<close>

definition isAgentAvailable :: "string \<Rightarrow> bool" where
  "isAgentAvailable agentState =
     (agentState = ''listening'' \<or> agentState = ''thinking'' \<or> agentState = ''speaking'')"

datatype action =
    Toast string   \<comment> \<open>\<open>toastAlert\<close>, with the reason it shows\<close>
  | Disconnect     \<comment> \<open>\<open>room.disconnect()\<close>\<close>

record timer =
  timer_id :: nat
  deadline :: nat
  captured :: string   \<comment> \<open>\<open>agentState\<close> as the callback's closure holds it\<close>

record guard =
  now :: nat
  agentState :: string
  sessionStarted :: bool
  mounted :: bool
  timers :: "timer list"       \<comment> \<open>the pending timeouts, oldest first\<close>
  cleanup :: "nat option"      \<comment> \<open>the timeout the effect's cleanup clears\<close>
  next_id :: nat
  fired :: "(nat \<times> action) list"   \<comment> \<open>what the callbacks did, and when\<close>

definition reason_of :: "string \<Rightarrow> string" where
  "reason_of a =
     (if a = ''connecting'' then ''Agent did not join the room. ''
      else ''Agent connected but did not complete initializing. '')"

text \<open>The callback of \<open>setTimeout\<close>.\<close>

definition fire :: "timer \<Rightarrow> guard \<Rightarrow> guard" where
  "fire t g =
     (if \<not> isAgentAvailable (captured t)
      then g\<lparr>fired := fired g @ [(deadline t, Toast (reason_of (captured t))),
                                 (deadline t, Disconnect)]\<rparr>
      else g)"

text \<open>The body of the effect, and the cleanup it returned the last time it ran.\<close>

definition run_effect :: "guard \<Rightarrow> guard" where
  "run_effect g =
     (if sessionStarted g
      then g\<lparr>timers := timers g @ [\<lparr>timer_id = next_id g, deadline = now g + 10000,
                                     captured = agentState g\<rparr>],
             cleanup := Some (next_id g),
             next_id := next_id g + 1\<rparr>
      else g\<lparr>cleanup := None\<rparr>)"

definition run_cleanup :: "guard \<Rightarrow> guard" where
  "run_cleanup g =
     (case cleanup g of
        None \<Rightarrow> g
      | Some i \<Rightarrow> g\<lparr>timers := filter (\<lambda>t. timer_id t \<noteq> i) (timers g), cleanup := None\<rparr>)"

text \<open>A render after which a dependency differs: the cleanup runs, then the effect.\<close>

definition deps_changed :: "guard \<Rightarrow> guard" where
  "deps_changed g = run_effect (run_cleanup g)"








text \<open>
  The invariant of the guard: no timeout is pending, or exactly one, which the cleanup
  will clear, which holds the current agent state, and which is due within 10 seconds.
\<close>

definition armed :: "guard \<Rightarrow> timer \<Rightarrow> bool" where
  "armed g t =
     (timers g = [t] \<and> cleanup g = Some (timer_id t) \<and> captured t = agentState g
      \<and> sessionStarted g \<and> mounted g \<and> now g < deadline t \<and> deadline t \<le> now g + 10000)"

definition guard_inv :: "guard \<Rightarrow> bool" where
  "guard_inv g = (timers g = [] \<or> (\<exists>t. armed g t))"

lemma run_cleanup_clears: "guard_inv g \<Longrightarrow> timers (run_cleanup g) = []"
  by (auto simp: guard_inv_def armed_def run_cleanup_def split: option.splits)

lemma run_cleanup_fields:
  "agentState (run_cleanup g) = agentState g" "sessionStarted (run_cleanup g) = sessionStarted g"
  "mounted (run_cleanup g) = mounted g" "now (run_cleanup g) = now g"
  "fired (run_cleanup g) = fired g" "next_id (run_cleanup g) = next_id g"
  by (simp_all add: run_cleanup_def split: option.splits)



lemma deps_changed_fields:
  "agentState (deps_changed g) = agentState g" "sessionStarted (deps_changed g) = sessionStarted g"
  "mounted (deps_changed g) = mounted g" "now (deps_changed g) = now g"
  by (simp_all add: deps_changed_def run_effect_def run_cleanup_fields)

lemma deps_changed_timers:
  "guard_inv g \<Longrightarrow>
   timers (deps_changed g) =
     (if sessionStarted g
      then [\<lparr>timer_id = next_id g, deadline = now g + 10000, captured = agentState g\<rparr>]
      else [])"
  by (simp add: deps_changed_def run_effect_def run_cleanup_clears run_cleanup_fields)

lemma deps_changed_cleanup:
  "cleanup (deps_changed g) = (if sessionStarted g then Some (next_id g) else None)"
  by (simp add: deps_changed_def run_effect_def run_cleanup_fields)

lemma deps_changed_inv: "guard_inv g \<Longrightarrow> mounted g \<Longrightarrow> guard_inv (deps_changed g)"
  by (simp add: guard_inv_def [of "deps_changed g"] armed_def deps_changed_timers
      deps_changed_cleanup deps_changed_fields)

lemma guard_inv_update:
  "guard_inv g \<Longrightarrow> a \<noteq> agentState g \<Longrightarrow> timers g = [] \<or> cleanup g \<noteq> None"
  by (auto simp: guard_inv_def armed_def)








lemma fire_fields:
  "agentState (fire t g) = agentState g" "sessionStarted (fire t g) = sessionStarted g"
  "mounted (fire t g) = mounted g" "cleanup (fire t g) = cleanup g"
  by (simp_all add: fire_def)





















end
